theory Spec2Isabelle
  imports Complex_Main "HOL-Library.Sublist" "HOL-Library.Signed_Division"
begin

section \<open>Validator (package audit, validator.go)\<close>

text \<open>
  Go strings are byte sequences and \<^verbatim>\<open>len\<close> counts bytes, so a Go string is a
  \<^typ>\<open>string\<close> (a list of 8-bit characters) and \<^verbatim>\<open>len(s)\<close> is \<^term>\<open>int (length s)\<close>.
  An \<^verbatim>\<open>error\<close> result is an option: \<^term>\<open>None\<close> is \<^verbatim>\<open>nil\<close>.
\<close>

record Validator =
  maxKeyLength :: int
  maxBinNameLength :: int
  maxNamespaceLength :: int
  maxSetNameLength :: int
  maxBatchSize :: int
  maxRecordSize :: int

record ValidatorConfig =
  MaxKeyLength :: int
  MaxBinNameLength :: int
  MaxNamespaceLength :: int
  MaxSetNameLength :: int
  MaxBatchSize :: int
  MaxRecordSize :: int

definition DefaultValidatorConfig :: ValidatorConfig where
  "DefaultValidatorConfig =
     \<lparr>MaxKeyLength = 1024, MaxBinNameLength = 15, MaxNamespaceLength = 31,
      MaxSetNameLength = 63, MaxBatchSize = 5000, MaxRecordSize = 1024 * 1024\<rparr>"

definition NewValidator :: "ValidatorConfig \<Rightarrow> Validator" where
  "NewValidator cfg =
     \<lparr>maxKeyLength = MaxKeyLength cfg, maxBinNameLength = MaxBinNameLength cfg,
      maxNamespaceLength = MaxNamespaceLength cfg, maxSetNameLength = MaxSetNameLength cfg,
      maxBatchSize = MaxBatchSize cfg, maxRecordSize = MaxRecordSize cfg\<rparr>"

record ValidationError =
  Field :: string
  Message :: string

text \<open>The decimal rendering that \<^verbatim>\<open>fmt.Sprintf("%d", n)\<close> produces.\<close>

definition digitChar :: "nat \<Rightarrow> char" where
  "digitChar d = char_of (48 + d)"

fun natDigits :: "nat \<Rightarrow> string" where
  "natDigits n = (if n < 10 then [digitChar n] else natDigits (n div 10) @ [digitChar (n mod 10)])"

definition itoa :: "int \<Rightarrow> string" where
  "itoa i = (if i < 0 then CHR ''-'' # natDigits (nat (- i)) else natDigits (nat i))"

text \<open>
  \<^verbatim>\<open>isValidIdentifier\<close> matches the regular expression \<^verbatim>\<open>^[a-zA-Z0-9_-]+$\<close>. In Go's
  syntax \<^verbatim>\<open>$\<close> is the end of the text, so the expression accepts exactly the non-empty
  strings all of whose bytes are ASCII letters, ASCII digits, underscore or hyphen (a byte of a
  multi-byte or invalid UTF-8 sequence is never in the class).
\<close>

definition identChar :: "char \<Rightarrow> bool" where
  "identChar c =
     (let n = (of_char c :: nat) in
        (97 \<le> n \<and> n \<le> 122) \<or> (65 \<le> n \<and> n \<le> 90) \<or> (48 \<le> n \<and> n \<le> 57) \<or> n = 95 \<or> n = 45)"

definition isValidIdentifier :: "string \<Rightarrow> bool" where
  "isValidIdentifier s = (if s = [] then False else list_all identChar s)"

definition ValidateNamespace :: "Validator \<Rightarrow> string \<Rightarrow> ValidationError option" where
  "ValidateNamespace v namespace =
     (if namespace = [] then Some \<lparr>Field = ''namespace'', Message = ''cannot be empty''\<rparr>
      else if int (length namespace) > maxNamespaceLength v then
        Some \<lparr>Field = ''namespace'',
              Message = ''exceeds maximum length of '' @ itoa (maxNamespaceLength v)\<rparr>
      else if \<not> isValidIdentifier namespace then
        Some \<lparr>Field = ''namespace'',
              Message = ''contains invalid characters (must be alphanumeric, underscore, or hyphen)''\<rparr>
      else None)"

definition ValidateSetName :: "Validator \<Rightarrow> string \<Rightarrow> ValidationError option" where
  "ValidateSetName v setName =
     (if setName = [] then None
      else if int (length setName) > maxSetNameLength v then
        Some \<lparr>Field = ''set_name'',
              Message = ''exceeds maximum length of '' @ itoa (maxSetNameLength v)\<rparr>
      else if \<not> isValidIdentifier setName then
        Some \<lparr>Field = ''set_name'',
              Message = ''contains invalid characters (must be alphanumeric, underscore, or hyphen)''\<rparr>
      else None)"

definition ValidateBinName :: "Validator \<Rightarrow> string \<Rightarrow> ValidationError option" where
  "ValidateBinName v binName =
     (if binName = [] then Some \<lparr>Field = ''bin_name'', Message = ''cannot be empty''\<rparr>
      else if int (length binName) > maxBinNameLength v then
        Some \<lparr>Field = ''bin_name'',
              Message = ''exceeds maximum length of '' @ itoa (maxBinNameLength v)\<rparr>
      else if \<not> isValidIdentifier binName then
        Some \<lparr>Field = ''bin_name'',
              Message = ''contains invalid characters (must be alphanumeric or underscore)''\<rparr>
      else None)"

subsection \<open>The denylist scan of \<^verbatim>\<open>ValidateUDFCode\<close>\<close>

definition isASCII :: "char \<Rightarrow> bool" where
  "isASCII c = ((of_char c :: nat) < 128)"

definition asciiLower :: "char \<Rightarrow> char" where
  "asciiLower c =
     (let n = (of_char c :: nat) in if 65 \<le> n \<and> n \<le> 90 then char_of (n + 32) else c)"

text \<open>
  \<^verbatim>\<open>strings.ToLower\<close> of the Go library: on a string of ASCII bytes only it lowers the bytes
  \<^verbatim>\<open>'A'..'Z'\<close> and leaves the rest; any other string goes through the Unicode case tables,
  which are not part of this repository and are the parameter \<open>lowerUnicode\<close>.
\<close>

definition ToLower :: "(string \<Rightarrow> string) \<Rightarrow> string \<Rightarrow> string" where
  "ToLower lowerUnicode s = (if list_all isASCII s then map asciiLower s else lowerUnicode s)"

text \<open>\<^verbatim>\<open>strings.Contains(s, substr)\<close>: some suffix of \<open>s\<close> starts with \<open>substr\<close>.\<close>

fun Contains :: "string \<Rightarrow> string \<Rightarrow> bool" where
  "Contains [] substr = (substr = [])"
| "Contains (c # s) substr = (prefix substr (c # s) \<or> Contains s substr)"

definition dangerousPatterns :: "string list" where
  "dangerousPatterns = [''os.execute'', ''io.popen'', ''loadfile'', ''dofile'']"

text \<open>The loop over the patterns, returning at the first pattern found.\<close>

fun scanPatterns :: "string \<Rightarrow> string list \<Rightarrow> ValidationError option" where
  "scanPatterns codeLower [] = None"
| "scanPatterns codeLower (pattern # rest) =
     (if Contains codeLower pattern then
        Some \<lparr>Field = ''code'',
              Message = ''contains potentially dangerous function: '' @ pattern\<rparr>
      else scanPatterns codeLower rest)"

definition ValidateUDFCode :: "(string \<Rightarrow> string) \<Rightarrow> string \<Rightarrow> ValidationError option" where
  "ValidateUDFCode lowerUnicode code =
     (if code = [] then Some \<lparr>Field = ''code'', Message = ''cannot be empty''\<rparr>
      else scanPatterns (ToLower lowerUnicode code) dangerousPatterns)"

section \<open>Floating-point arithmetic of the rate limiter\<close>

text \<open>
  The limiter computes with \<^verbatim>\<open>float64\<close>, the binary64 format of IEEE 754: a value is a real
  number \<open>m * 2^e\<close> with \<open>\<bar>m\<bar> < 2^53\<close> and \<open>- 1074 \<le> e \<le> 971\<close>, an infinity, or
  not-a-number. The sign of a zero is not represented; no operation of the limiter tells the
  two zeros apart.
\<close>

datatype float64 = Finite real | PosInf | NegInf | NaN

text \<open>The number of bits of a natural number, \<^verbatim>\<open>bits.Len\<close>.\<close>

fun bitLength :: "nat \<Rightarrow> nat" where
  "bitLength n = (if n = 0 then 0 else Suc (bitLength (n div 2)))"

declare bitLength.simps [simp del]

definition pow2 :: "int \<Rightarrow> real" where
  "pow2 k = (if 0 \<le> k then 2 ^ nat k else 1 / 2 ^ nat (- k))"

text \<open>For \<open>x \<noteq> 0\<close>, the exponent \<open>e\<close> with \<open>2^e \<le> \<bar>x\<bar> < 2^(e+1)\<close>.\<close>

definition exponent :: "real \<Rightarrow> int" where
  "exponent x =
     (if 1 \<le> \<bar>x\<bar> then int (bitLength (nat \<lfloor>\<bar>x\<bar>\<rfloor>)) - 1
      else - int (bitLength (nat (\<lceil>1 / \<bar>x\<bar>\<rceil> - 1))))"

text \<open>Rounding to the nearest integer, a tie going to the even one.\<close>

definition roundHalfEven :: "real \<Rightarrow> int" where
  "roundHalfEven y =
     (let f = \<lfloor>y\<rfloor>; d = y - of_int f
      in if d < 1 / 2 then f else if 1 / 2 < d then f + 1 else if even f then f else f + 1)"

text \<open>
  Rounding of a real number to the nearest \<^verbatim>\<open>float64\<close>, ties to the even significand: the
  spacing of the format at \<open>x\<close> is \<open>2^(e - 52)\<close> for the exponent \<open>e\<close> of \<open>x\<close>, and
  \<open>2^(- 1074)\<close> below the smallest normal number \<open>2^(- 1022)\<close>; a result of magnitude
  \<open>2^1024\<close> overflows to an infinity.
\<close>

definition round64 :: "real \<Rightarrow> float64" where
  "round64 x =
     (if x = 0 then Finite 0
      else
        let e = max (exponent x) (- 1022);
            ulp = pow2 (e - 52);
            y = of_int (roundHalfEven (x / ulp)) * ulp
        in if pow2 1024 \<le> \<bar>y\<bar> then (if 0 < x then PosInf else NegInf) else Finite y)"

text \<open>
  The conversion \<^verbatim>\<open>float64(n)\<close> of an integer and the arithmetic and comparison operators of
  Go on \<^verbatim>\<open>float64\<close>; each operation is rounded on its own. A comparison with not-a-number
  is false.
\<close>

definition ofInt :: "int \<Rightarrow> float64" where
  "ofInt n = round64 (of_int n)"

fun fneg :: "float64 \<Rightarrow> float64" where
  "fneg (Finite a) = Finite (- a)"
| "fneg PosInf = NegInf"
| "fneg NegInf = PosInf"
| "fneg NaN = NaN"

fun fadd :: "float64 \<Rightarrow> float64 \<Rightarrow> float64" where
  "fadd (Finite a) (Finite b) = round64 (a + b)"
| "fadd NaN b = NaN"
| "fadd a NaN = NaN"
| "fadd PosInf NegInf = NaN"
| "fadd NegInf PosInf = NaN"
| "fadd PosInf b = PosInf"
| "fadd a PosInf = PosInf"
| "fadd NegInf b = NegInf"
| "fadd a NegInf = NegInf"

definition fsub :: "float64 \<Rightarrow> float64 \<Rightarrow> float64" where
  "fsub a b = fadd a (fneg b)"

fun fmul :: "float64 \<Rightarrow> float64 \<Rightarrow> float64" where
  "fmul (Finite a) (Finite b) = round64 (a * b)"
| "fmul NaN b = NaN"
| "fmul a NaN = NaN"
| "fmul (Finite a) PosInf = (if a = 0 then NaN else if 0 < a then PosInf else NegInf)"
| "fmul (Finite a) NegInf = (if a = 0 then NaN else if 0 < a then NegInf else PosInf)"
| "fmul PosInf (Finite b) = (if b = 0 then NaN else if 0 < b then PosInf else NegInf)"
| "fmul NegInf (Finite b) = (if b = 0 then NaN else if 0 < b then NegInf else PosInf)"
| "fmul PosInf PosInf = PosInf"
| "fmul NegInf NegInf = PosInf"
| "fmul PosInf NegInf = NegInf"
| "fmul NegInf PosInf = NegInf"

fun fdiv :: "float64 \<Rightarrow> float64 \<Rightarrow> float64" where
  "fdiv (Finite a) (Finite b) =
     (if b = 0 then (if a = 0 then NaN else if 0 < a then PosInf else NegInf)
      else round64 (a / b))"
| "fdiv NaN b = NaN"
| "fdiv a NaN = NaN"
| "fdiv (Finite a) b = Finite 0"
| "fdiv PosInf (Finite b) = (if 0 \<le> b then PosInf else NegInf)"
| "fdiv NegInf (Finite b) = (if 0 \<le> b then NegInf else PosInf)"
| "fdiv a b = NaN"

fun fle :: "float64 \<Rightarrow> float64 \<Rightarrow> bool" where
  "fle (Finite a) (Finite b) = (a \<le> b)"
| "fle NaN b = False"
| "fle a NaN = False"
| "fle NegInf b = True"
| "fle a PosInf = True"
| "fle a b = False"

fun flt :: "float64 \<Rightarrow> float64 \<Rightarrow> bool" where
  "flt (Finite a) (Finite b) = (a < b)"
| "flt NaN b = False"
| "flt a NaN = False"
| "flt PosInf b = False"
| "flt a NegInf = False"
| "flt a b = True"

definition fge :: "float64 \<Rightarrow> float64 \<Rightarrow> bool" where
  "fge a b = fle b a"

definition fgt :: "float64 \<Rightarrow> float64 \<Rightarrow> bool" where
  "fgt a b = flt b a"

section \<open>Rate limiter (package audit, ratelimit.go)\<close>

text \<open>
  A \<^verbatim>\<open>time.Time\<close> is a clock reading in nanoseconds, a \<^verbatim>\<open>time.Duration\<close> a number of
  nanoseconds in the range of \<^verbatim>\<open>int64\<close>; \<^verbatim>\<open>Sub\<close> saturates at the ends of that range.
  Every function that reads \<^verbatim>\<open>time.Now()\<close> takes the reading as its argument \<open>now\<close>.
\<close>

type_synonym Time = int
type_synonym Duration = int

definition IsZero :: "Time \<Rightarrow> bool" where
  "IsZero t = (t = 0)"

definition maxDuration :: Duration where "maxDuration = 2 ^ 63 - 1"

definition minDuration :: Duration where "minDuration = - (2 ^ 63)"

definition Sub :: "Time \<Rightarrow> Time \<Rightarrow> Duration" where
  "Sub t u =
     (let d = t - u
      in if maxDuration < d then maxDuration else if d < minDuration then minDuration else d)"

text \<open>
  \<^verbatim>\<open>Duration.Seconds\<close>: the whole seconds plus the remaining nanoseconds over \<open>10^9\<close>, with
  Go's integer division, which truncates towards zero.
\<close>

definition Seconds :: "Duration \<Rightarrow> float64" where
  "Seconds d =
     (let sec = d sdiv 1000000000; nsec = d smod 1000000000
      in fadd (ofInt sec) (fdiv (ofInt nsec) (Finite 1000000000)))"

record RateLimiter =
  tokens :: float64
  maxTokens :: float64
  refillRate :: float64
  lastRefill :: Time
  enabled :: bool

record RateLimitConfig =
  Enabled :: bool
  RequestsPerSec :: float64
  BurstSize :: int

definition NewRateLimiter :: "Time \<Rightarrow> RateLimitConfig \<Rightarrow> RateLimiter" where
  "NewRateLimiter now cfg =
     (let maxTokens0 = ofInt (BurstSize cfg);
          maxTokens1 = (if fle maxTokens0 (Finite 0) then Finite 200 else maxTokens0);
          refillRate0 = RequestsPerSec cfg;
          refillRate1 = (if fle refillRate0 (Finite 0) then Finite 100 else refillRate0)
      in \<lparr>tokens = maxTokens1, maxTokens = maxTokens1, refillRate = refillRate1,
          lastRefill = now, enabled = Enabled cfg\<rparr>)"

definition refill :: "Time \<Rightarrow> RateLimiter \<Rightarrow> RateLimiter" where
  "refill now r =
     (let elapsed = Seconds (Sub now (lastRefill r));
          r1 = r\<lparr>lastRefill := now\<rparr>;
          r2 = r1\<lparr>tokens := fadd (tokens r1) (fmul elapsed (refillRate r1))\<rparr>
      in if fgt (tokens r2) (maxTokens r2) then r2\<lparr>tokens := maxTokens r2\<rparr> else r2)"

definition Allow :: "Time \<Rightarrow> RateLimiter \<Rightarrow> bool \<times> RateLimiter" where
  "Allow now r =
     (if \<not> enabled r then (True, r)
      else let r1 = refill now r
           in if fge (tokens r1) (Finite 1) then (True, r1\<lparr>tokens := fsub (tokens r1) (Finite 1)\<rparr>)
              else (False, r1))"

text \<open>Consecutive calls of \<^verbatim>\<open>Allow\<close>, one per clock reading of the list, with their results.\<close>

fun AllowCalls :: "Time list \<Rightarrow> RateLimiter \<Rightarrow> bool list \<times> RateLimiter" where
  "AllowCalls [] r = ([], r)"
| "AllowCalls (now # later) r =
     (let (ok, r1) = Allow now r; (oks, r2) = AllowCalls later r1 in (ok # oks, r2))"

section \<open>Audit logger (package audit, logger.go)\<close>

text \<open>
  \<^verbatim>\<open>Level\<close> and \<^verbatim>\<open>Category\<close> are string types. The fields \<^verbatim>\<open>Set\<close> and \<^verbatim>\<open>Error\<close> of
  \<^verbatim>\<open>Event\<close> are \<open>SetName\<close> and \<open>ErrorText\<close> here.
\<close>

type_synonym Level = string
type_synonym Category = string

definition LevelInfo :: Level where "LevelInfo = ''INFO''"
definition LevelWarning :: Level where "LevelWarning = ''WARNING''"
definition LevelError :: Level where "LevelError = ''ERROR''"
definition LevelAudit :: Level where "LevelAudit = ''AUDIT''"

definition CategoryRead :: Category where "CategoryRead = ''READ''"
definition CategoryWrite :: Category where "CategoryWrite = ''WRITE''"
definition CategoryAdmin :: Category where "CategoryAdmin = ''ADMIN''"
definition CategoryAuth :: Category where "CategoryAuth = ''AUTH''"
definition CategorySystem :: Category where "CategorySystem = ''SYSTEM''"

record Event =
  Timestamp :: Time
  Level :: Level
  Category :: Category
  Operation :: string
  Namespace :: string
  SetName :: string
  Key :: string
  User :: string
  ClientID :: string
  Duration :: Duration
  Success :: bool
  ErrorText :: string
  Details :: "(string \<times> string) list"
  RecordCount :: int

text \<open>The zero value \<^verbatim>\<open>Event{}\<close>, from which a composite literal sets the named fields.\<close>

definition Event0 :: Event where
  "Event0 = \<lparr>Timestamp = 0, Level = [], Category = [], Operation = [], Namespace = [],
     SetName = [], Key = [], User = [], ClientID = [], Duration = 0, Success = False,
     ErrorText = [], Details = [], RecordCount = 0\<rparr>"

text \<open>
  The logger's \<^verbatim>\<open>writer\<close> is the sequence of byte strings written to the sink so far.
  \<^verbatim>\<open>json.Marshal\<close> is the parameter \<open>marshal\<close>: \<^term>\<open>Inl\<close> is its error.
\<close>

record Logger =
  writer :: "string list"
  logEnabled :: bool
  minLevel :: Level
  buffer :: "Event list"
  bufSize :: int

record Config =
  cfgEnabled :: bool
  FilePath :: string
  BufferSize :: int
  MinLevel :: Level

text \<open>
  \<^verbatim>\<open>NewLogger\<close>; \<open>openError\<close> is the result of opening the log file, consulted when a path
  is configured.
\<close>

definition NewLogger :: "string option \<Rightarrow> Config \<Rightarrow> string + Logger" where
  "NewLogger openError cfg =
     (if FilePath cfg \<noteq> [] \<and> openError \<noteq> None then
        Inl (''opening audit log file: '' @ the openError)
      else
        let bufSize0 = BufferSize cfg;
            bufSize1 = (if bufSize0 \<le> 0 then 100 else bufSize0)
        in Inr \<lparr>writer = [], logEnabled = cfgEnabled cfg, minLevel = MinLevel cfg,
                buffer = [], bufSize = bufSize1\<rparr>)"

definition Log :: "(Event \<Rightarrow> string + string) \<Rightarrow> Time \<Rightarrow> Logger \<Rightarrow> Event \<Rightarrow> Logger" where
  "Log marshal now l event0 =
     (if \<not> logEnabled l then l
      else
        let event = (if IsZero (Timestamp event0) then event0\<lparr>Timestamp := now\<rparr> else event0)
        in case marshal event of
             Inl err \<Rightarrow> l
           | Inr data \<Rightarrow>
               let l1 = l\<lparr>writer := writer l @ [data @ [CHR 0x0A]]\<rparr>;
                   l2 = l1\<lparr>buffer := buffer l1 @ [event]\<rparr>
               in if int (length (buffer l2)) \<ge> bufSize l2
                  then l2\<lparr>buffer := tl (buffer l2)\<rparr> else l2)"

text \<open>The event that \<^verbatim>\<open>Log\<close> stores for a clock reading and a submitted event.\<close>

definition stamp :: "Time \<times> Event \<Rightarrow> Event" where
  "stamp p = (if IsZero (Timestamp (snd p)) then (snd p)\<lparr>Timestamp := fst p\<rparr> else snd p)"

text \<open>An event as the logger's tests build it, and a logger whose ring has capacity 3.\<close>

definition opEvent :: "string \<Rightarrow> Event" where
  "opEvent name = Event0\<lparr>Operation := name\<rparr>"

definition ring3 :: Logger where
  "ring3 = \<lparr>writer = [], logEnabled = True, minLevel = LevelInfo, buffer = [], bufSize = 3\<rparr>"

text \<open>A sequence of \<^verbatim>\<open>Log\<close> calls, each with its own clock reading.\<close>

fun LogAll :: "(Event \<Rightarrow> string + string) \<Rightarrow> Logger \<Rightarrow> (Time \<times> Event) list \<Rightarrow> Logger" where
  "LogAll marshal l [] = l"
| "LogAll marshal l ((now, event) # rest) = LogAll marshal (Log marshal now l event) rest"

text \<open>
  \<^verbatim>\<open>GetRecentEvents\<close>; \<^verbatim>\<open>make([]Event, count)\<close> panics on a negative count, which is the
  result \<^term>\<open>None\<close>.
\<close>

definition GetRecentEvents :: "Logger \<Rightarrow> int \<Rightarrow> Event list option" where
  "GetRecentEvents l count0 =
     (let n = int (length (buffer l));
          count = (if count0 > n then n else count0);
          start = n - count
      in if count < 0 then None else Some (drop (nat start) (buffer l)))"

section \<open>Outbound queues of the push-stream and polling transports\<close>

text \<open>
  A buffered Go channel, seen by one goroutine at a time: the queued values, oldest first, and
  the capacity given to \<^verbatim>\<open>make\<close>. A \<^verbatim>\<open>select\<close> with a \<^verbatim>\<open>default\<close> case is a non-blocking
  attempt. A plain send on a full channel blocks until another goroutine receives; with no
  other goroutine in the model it is the result \<^term>\<open>None\<close>.
\<close>

record 'a chan =
  queue :: "'a list"
  capacity :: nat

definition make_chan :: "nat \<Rightarrow> 'a chan" where
  "make_chan n = \<lparr>queue = [], capacity = n\<rparr>"

definition trySend :: "'a \<Rightarrow> 'a chan \<Rightarrow> bool \<times> 'a chan" where
  "trySend v ch =
     (if length (queue ch) < capacity ch then (True, ch\<lparr>queue := queue ch @ [v]\<rparr>)
      else (False, ch))"

definition tryReceive :: "'a chan \<Rightarrow> 'a option \<times> 'a chan" where
  "tryReceive ch =
     (case queue ch of [] \<Rightarrow> (None, ch) | v # rest \<Rightarrow> (Some v, ch\<lparr>queue := rest\<rparr>))"

definition send :: "'a \<Rightarrow> 'a chan \<Rightarrow> 'a chan option" where
  "send v ch =
     (if length (queue ch) < capacity ch then Some (ch\<lparr>queue := queue ch @ [v]\<rparr>) else None)"

text \<open>
  The session queues are created with \<^verbatim>\<open>make(chan []byte, 100)\<close> by \<^verbatim>\<open>handleSSE\<close> and by
  \<^verbatim>\<open>handleWebSocket\<close>.
\<close>

definition newClientMessages :: "string chan" where
  "newClientMessages = make_chan 100"

text \<open>
  The \<^verbatim>\<open>select\<close> statement of \<^verbatim>\<open>SSEServer.handleMessage\<close>: the response is sent if there is
  room; otherwise a line is logged and the response is not queued. The second component is the
  log output.
\<close>

definition sseEnqueue :: "string \<Rightarrow> string \<Rightarrow> string chan \<Rightarrow> string chan \<times> string list" where
  "sseEnqueue sessionID responseBytes messages =
     (let (sent, messages1) = trySend responseBytes messages
      in if sent then (messages1, [])
         else (messages1, [''Client message buffer full: '' @ sessionID]))"

text \<open>
  The \<^verbatim>\<open>select\<close> statement of \<^verbatim>\<open>WebSocketServer.handleSend\<close>: the response is sent if
  there is room; otherwise one queued message is taken off if there is one, and the response is
  sent with a plain (blocking) send.
\<close>

definition wsEnqueue :: "string \<Rightarrow> string chan \<Rightarrow> string chan option" where
  "wsEnqueue responseData messages =
     (let (sent, messages1) = trySend responseData messages
      in if sent then Some messages1
         else let (dropped, messages2) = tryReceive messages1
              in send responseData messages2)"

section \<open>MCP server (package mcp, server.go)\<close>

text \<open>
  The JSON-RPC types. A Go pointer or interface that may be \<^verbatim>\<open>nil\<close> is an option. The field
  \<^verbatim>\<open>ID\<close> is an opaque JSON value of type \<open>'i\<close>, absent (\<^term>\<open>None\<close>) in a notification.
  \<^verbatim>\<open>json.RawMessage\<close> is the raw bytes, \<^term>\<open>None\<close> when the field is absent. Go's struct
  \<^verbatim>\<open>Error\<close> is the record \<open>RPCError\<close>; fields whose names occur in two structs carry a
  prefix in one of them.
\<close>

definition MCPVersion :: string where "MCPVersion = ''2024-11-05''"
definition ServerName :: string where "ServerName = ''aerospike-mcp-server''"
definition ServerVersion :: string where "ServerVersion = ''0.1.0''"

record 'i Request =
  req_JSONRPC :: string
  req_ID :: "'i option"
  Method :: string
  Params :: "string option"

record RPCError =
  Code :: int
  ErrMessage :: string
  Data :: "string option"

definition ParseError :: int where "ParseError = - 32700"
definition InvalidRequest :: int where "InvalidRequest = - 32600"
definition MethodNotFound :: int where "MethodNotFound = - 32601"
definition InvalidParams :: int where "InvalidParams = - 32602"
definition InternalError :: int where "InternalError = - 32603"

record InitializeParams =
  ClientProtocolVersion :: string
  ClientInfoName :: string
  ClientInfoVersion :: string

record InitializeResult =
  ProtocolVersion :: string
  ServerInfoName :: string
  ServerInfoVersion :: string

record ToolDefinition =
  ToolName :: string
  ToolDescription :: string

record ResourceDefinition =
  ResourceURI :: string
  ResourceName :: string
  ResourceDescription :: string
  ResourceMimeType :: string

record ToolsCallParams =
  Name :: string
  Arguments :: "string option"

record ContentBlock =
  Type :: string
  Text :: string

record ToolsCallResult =
  Content :: "ContentBlock list"
  IsError :: bool

record ResourceContent =
  URI :: string
  MimeType :: string
  ContentText :: string

text \<open>The values a handler puts into the \<^verbatim>\<open>Result\<close> field, one constructor per result type.\<close>

datatype ResultValue =
  InitializeRes InitializeResult
| ToolsListRes "ToolDefinition list"
| ToolsCallRes ToolsCallResult
| ResourcesListRes "ResourceDefinition list"
| ResourcesReadRes "ResourceContent list"
| PromptsListRes

record 'i Response =
  JSONRPC :: string
  ID :: "'i option"
  Result :: "ResultValue option"
  Error :: "RPCError option"

text \<open>
  What the server calls outside this repository or outside the dispatcher: the decoders of
  \<^verbatim>\<open>encoding/json\<close> for each target type (\<^term>\<open>Inl\<close> is the decoding error's text), the
  encoder of audit events, the tool registry's table of handlers and its catalogue, and the
  readers of the resource registry that query the cluster. A tool handler's successful result is
  given as the text \<^verbatim>\<open>json.MarshalIndent\<close> renders it to.
\<close>

record 'i Env =
  unmarshalRequest :: "string \<Rightarrow> string + 'i Request"
  unmarshalInitializeParams :: "string \<Rightarrow> string + InitializeParams"
  unmarshalToolsCallParams :: "string \<Rightarrow> string + ToolsCallParams"
  unmarshalResourcesReadParams :: "string \<Rightarrow> string + string"
  marshalEvent :: "Event \<Rightarrow> string + string"
  tools :: "string \<Rightarrow> (string option \<Rightarrow> string + string) option"
  toolsList :: "ToolDefinition list"
  resourcesList :: "ResourceDefinition list"
  readClusterInfo :: "string + string \<times> string"
  readNamespaceResource :: "string \<Rightarrow> string + string \<times> string"
  readUDFs :: "string + string \<times> string"
  readSchema :: "string \<Rightarrow> string + string \<times> string"

text \<open>
  The mutable state of the server: the audit logger (\<^verbatim>\<open>nil\<close> when \<^verbatim>\<open>NewLogger\<close> failed), the
  rate limiter, and, as the observable effect on the capability registry, the list of tool
  handler invocations made so far.
\<close>

record Server =
  auditLogger :: "Logger option"
  rateLimiter :: RateLimiter
  toolCalls :: "(string \<times> string option) list"

text \<open>
  The readings of \<^verbatim>\<open>time.Now()\<close> during one dispatch: at the start of \<^verbatim>\<open>handleToolsCall\<close>,
  inside \<^verbatim>\<open>Allow\<close>, at \<^verbatim>\<open>time.Since\<close>, and inside \<^verbatim>\<open>Log\<close>.
\<close>

record Clock =
  startTime :: Time
  allowTime :: Time
  endTime :: Time
  logTime :: Time

definition rawBytes :: "string option \<Rightarrow> string" where
  "rawBytes params = (case params of None \<Rightarrow> [] | Some bytes \<Rightarrow> bytes)"

text \<open>\<^verbatim>\<open>tools.Registry.Call\<close>: the handler registered under the name, or an error.\<close>

definition Call :: "'i Env \<Rightarrow> string \<Rightarrow> string option \<Rightarrow> Server \<Rightarrow> (string + string) \<times> Server" where
  "Call env name args s =
     (case tools env name of
        None \<Rightarrow> (Inl (''unknown tool: '' @ name), s)
      | Some handler \<Rightarrow> (handler args, s\<lparr>toolCalls := toolCalls s @ [(name, args)]\<rparr>))"

text \<open>\<^verbatim>\<open>resources.Registry.Read\<close>.\<close>

definition Read :: "'i Env \<Rightarrow> string \<Rightarrow> string + string \<times> string" where
  "Read env uri =
     (if \<not> prefix ''aerospike://'' uri then Inl (''invalid URI scheme: '' @ uri)
      else
        let path = drop (length ''aerospike://'') uri
        in if path = ''cluster/info'' then readClusterInfo env
           else if prefix ''ns/'' path then readNamespaceResource env path
           else if path = ''udfs'' then readUDFs env
           else if prefix ''schema/'' path then readSchema env path
           else Inl (''unknown resource: '' @ uri))"

definition isWriteOperation :: "string \<Rightarrow> bool" where
  "isWriteOperation op = (op \<in> set [''put_record'', ''delete_record'', ''batch_write'', ''operate''])"

definition isAdminOperation :: "string \<Rightarrow> bool" where
  "isAdminOperation op =
     (op \<in> set [''create_index'', ''drop_index'', ''truncate_set'', ''register_udf'', ''remove_udf''])"

definition errorString :: "string + 'a \<Rightarrow> string" where
  "errorString res = (case res of Inl err \<Rightarrow> err | Inr v \<Rightarrow> [])"

text \<open>\<^verbatim>\<open>if s.auditLogger != nil { s.auditLogger.Log(event) }\<close>\<close>

definition auditLog :: "'i Env \<Rightarrow> Time \<Rightarrow> Server \<Rightarrow> Event \<Rightarrow> Server" where
  "auditLog env now s event =
     (case auditLogger s of
        None \<Rightarrow> s
      | Some l \<Rightarrow> s\<lparr>auditLogger := Some (Log (marshalEvent env) now l event)\<rparr>)"

definition handleInitialize :: "'i Env \<Rightarrow> string option \<Rightarrow> InitializeResult option \<times> RPCError option" where
  "handleInitialize env params =
     (let result = \<lparr>ProtocolVersion = MCPVersion, ServerInfoName = ServerName,
                     ServerInfoVersion = ServerVersion\<rparr>
      in case params of
           None \<Rightarrow> (Some result, None)
         | Some bytes \<Rightarrow>
             (case unmarshalInitializeParams env bytes of
                Inl err \<Rightarrow>
                  (None, Some \<lparr>Code = InvalidParams, ErrMessage = ''Invalid params'', Data = Some err\<rparr>)
              | Inr initParams \<Rightarrow> (Some result, None)))"

definition handleToolsList :: "'i Env \<Rightarrow> ToolDefinition list option \<times> RPCError option" where
  "handleToolsList env = (Some (toolsList env), None)"

text \<open>
  \<^verbatim>\<open>handleToolsCall\<close>, in two parts: \<open>invokeTool\<close> is the function's body after the
  rate-limit check.
\<close>

definition invokeTool ::
  "'i Env \<Rightarrow> Clock \<Rightarrow> Server \<Rightarrow> ToolsCallParams \<Rightarrow> (ToolsCallResult option \<times> RPCError option) \<times> Server" where
  "invokeTool env clk s callParams =
     (let (res, s1) = Call env (Name callParams) (Arguments callParams) s;
          duration = Sub (endTime clk) (startTime clk);
          category0 = CategoryRead;
          category1 = (if isWriteOperation (Name callParams) then CategoryWrite else category0);
          category = (if isAdminOperation (Name callParams) then CategoryAdmin else category1);
          s2 = auditLog env (logTime clk) s1
                 (Event0\<lparr>Level := LevelAudit, Category := category, Operation := Name callParams,
                    Duration := duration, Success := (case res of Inl err \<Rightarrow> False | Inr v \<Rightarrow> True),
                    ErrorText := errorString res\<rparr>)
      in case res of
           Inl err \<Rightarrow>
             ((Some \<lparr>Content = [\<lparr>Type = ''text'', Text = ''Error: '' @ err\<rparr>], IsError = True\<rparr>, None), s2)
         | Inr resultJSON \<Rightarrow>
             ((Some \<lparr>Content = [\<lparr>Type = ''text'', Text = resultJSON\<rparr>], IsError = False\<rparr>, None), s2))"

definition handleToolsCall ::
  "'i Env \<Rightarrow> Clock \<Rightarrow> Server \<Rightarrow> string option \<Rightarrow> (ToolsCallResult option \<times> RPCError option) \<times> Server" where
  "handleToolsCall env clk s params =
     (case unmarshalToolsCallParams env (rawBytes params) of
        Inl err \<Rightarrow>
          ((None, Some \<lparr>Code = InvalidParams, ErrMessage = ''Invalid params'', Data = Some err\<rparr>), s)
      | Inr callParams \<Rightarrow>
          if isWriteOperation (Name callParams) then
            let (allowed, limiter) = Allow (allowTime clk) (rateLimiter s);
                s1 = s\<lparr>rateLimiter := limiter\<rparr>
            in if \<not> allowed then
                 ((Some \<lparr>Content = [\<lparr>Type = ''text'',
                                     Text = ''Error: rate limit exceeded, please try again later''\<rparr>],
                         IsError = True\<rparr>, None),
                  auditLog env (logTime clk) s1
                    (Event0\<lparr>Level := LevelWarning, Category := CategoryWrite,
                       Operation := Name callParams, Success := False,
                       ErrorText := ''rate limit exceeded''\<rparr>))
               else invokeTool env clk s1 callParams
          else invokeTool env clk s callParams)"

definition handleResourcesList :: "'i Env \<Rightarrow> ResourceDefinition list option \<times> RPCError option" where
  "handleResourcesList env = (Some (resourcesList env), None)"

definition handleResourcesRead :: "'i Env \<Rightarrow> string option \<Rightarrow> ResourceContent list option \<times> RPCError option" where
  "handleResourcesRead env params =
     (case unmarshalResourcesReadParams env (rawBytes params) of
        Inl err \<Rightarrow>
          (None, Some \<lparr>Code = InvalidParams, ErrMessage = ''Invalid params'', Data = Some err\<rparr>)
      | Inr uri \<Rightarrow>
          (case Read env uri of
             Inl err \<Rightarrow>
               (None, Some \<lparr>Code = InternalError, ErrMessage = ''Resource read failed'',
                             Data = Some err\<rparr>)
           | Inr (content, mimeType) \<Rightarrow>
               (Some [\<lparr>URI = uri, MimeType = mimeType, ContentText = content\<rparr>], None)))"

text \<open>
  \<^verbatim>\<open>routeMethod\<close> returns the pair \<^verbatim>\<open>(interface{}, *Error)\<close>. A handler's typed result goes
  into the interface through \<open>asResult\<close>; the two lifecycle methods return \<^verbatim>\<open>nil, nil\<close>.
\<close>

definition asResult :: "('a \<Rightarrow> ResultValue) \<Rightarrow> 'a option \<times> RPCError option \<Rightarrow> ResultValue option \<times> RPCError option" where
  "asResult wrap r = (map_option wrap (fst r), snd r)"

definition routeMethod ::
  "'i Env \<Rightarrow> Clock \<Rightarrow> Server \<Rightarrow> string \<Rightarrow> string option \<Rightarrow> (ResultValue option \<times> RPCError option) \<times> Server" where
  "routeMethod env clk s method params =
     (if method = ''initialize'' then (asResult InitializeRes (handleInitialize env params), s)
      else if method = ''initialized'' then ((None, None), s)
      else if method = ''shutdown'' then ((None, None), s)
      else if method = ''tools/list'' then (asResult ToolsListRes (handleToolsList env), s)
      else if method = ''tools/call'' then
        (let (r, s1) = handleToolsCall env clk s params in (asResult ToolsCallRes r, s1))
      else if method = ''resources/list'' then
        (asResult ResourcesListRes (handleResourcesList env), s)
      else if method = ''resources/read'' then
        (asResult ResourcesReadRes (handleResourcesRead env params), s)
      else if method = ''prompts/list'' then ((Some PromptsListRes, None), s)
      else ((None, Some \<lparr>Code = MethodNotFound, ErrMessage = ''Method not found'',
                          Data = Some method\<rparr>), s))"

text \<open>
  \<^verbatim>\<open>handleMessage\<close> returns a \<^verbatim>\<open>*Response\<close>; \<^term>\<open>None\<close> would be the \<^verbatim>\<open>nil\<close> that the
  transports test for before they write anything.
\<close>

definition handleMessage ::
  "'i Env \<Rightarrow> Clock \<Rightarrow> Server \<Rightarrow> string \<Rightarrow> 'i Response option \<times> Server" where
  "handleMessage env clk s message =
     (case unmarshalRequest env message of
        Inl err \<Rightarrow>
          (Some \<lparr>JSONRPC = ''2.0'', ID = None, Result = None,
                  Error = Some \<lparr>Code = ParseError, ErrMessage = ''Parse error'', Data = Some err\<rparr>\<rparr>, s)
      | Inr req \<Rightarrow>
          if req_JSONRPC req \<noteq> ''2.0'' then
            (Some \<lparr>JSONRPC = ''2.0'', ID = req_ID req, Result = None,
                    Error = Some \<lparr>Code = InvalidRequest, ErrMessage = ''Invalid Request'',
                                  Data = Some (''jsonrpc must be '' @ [CHR 0x27] @ ''2.0'' @ [CHR 0x27])\<rparr>\<rparr>, s)
          else
            let ((result, err), s1) = routeMethod env clk s (Method req) (Params req)
            in if err \<noteq> None then
                 (Some \<lparr>JSONRPC = ''2.0'', ID = req_ID req, Result = None, Error = err\<rparr>, s1)
               else
                 (Some \<lparr>JSONRPC = ''2.0'', ID = req_ID req, Result = result, Error = None\<rparr>, s1))"

subsection \<open>Example inputs\<close>

text \<open>
  A test double for evaluating the dispatcher: the request decoder returns the given envelope,
  the parameter decoders take the raw parameter bytes for the tool name or the resource URI,
  every tool name has a handler, of which the one of \<^verbatim>\<open>get_record\<close> fails, and an audit
  event is rendered as its level and operation. The example server has an enabled audit logger
  and an enabled rate limiter with no tokens left at the instant of the example clock.
\<close>

definition exampleEnv :: "nat Request \<Rightarrow> nat Env" where
  "exampleEnv req =
     \<lparr>unmarshalRequest = (\<lambda>message. Inr req),
      unmarshalInitializeParams = (\<lambda>bytes. Inl ''unexpected end of JSON input''),
      unmarshalToolsCallParams = (\<lambda>bytes. Inr \<lparr>Name = bytes, Arguments = None\<rparr>),
      unmarshalResourcesReadParams = (\<lambda>bytes. Inr bytes),
      marshalEvent = (\<lambda>event. Inr (Level event @ '' '' @ Operation event)),
      tools = (\<lambda>name. Some (\<lambda>args. if name = ''get_record'' then Inl ''record not found''
                                      else Inr ''{}'')),
      toolsList = [],
      resourcesList = [],
      readClusterInfo = Inr (''{}'', ''application/json''),
      readNamespaceResource = (\<lambda>path. Inr (''{}'', ''application/json'')),
      readUDFs = Inr (''[]'', ''application/json''),
      readSchema = (\<lambda>path. Inr (''{}'', ''application/json''))\<rparr>"

definition exampleRequest :: "string \<Rightarrow> string \<Rightarrow> nat Request" where
  "exampleRequest method params =
     \<lparr>req_JSONRPC = ''2.0'', req_ID = Some 1, Method = method, Params = Some params\<rparr>"

definition exampleClock :: Clock where
  "exampleClock = \<lparr>startTime = 1000, allowTime = 1000, endTime = 1000, logTime = 1000\<rparr>"

definition exhaustedLimiter :: RateLimiter where
  "exhaustedLimiter =
     \<lparr>tokens = Finite 0, maxTokens = Finite 5, refillRate = Finite 10, lastRefill = 1000,
      enabled = True\<rparr>"

definition exampleServer :: Server where
  "exampleServer = \<lparr>auditLogger = Some ring3, rateLimiter = exhaustedLimiter, toolCalls = []\<rparr>"

section \<open>Properties of the validator\<close>

lemma isValidIdentifier_iff: "isValidIdentifier s \<longleftrightarrow> s \<noteq> [] \<and> list_all identChar s"
  by (simp add: isValidIdentifier_def)

lemma Contains_sublist: "Contains s p \<longleftrightarrow> sublist p s"
  by (induction s) (auto simp: sublist_Cons_right)

lemma scanPatterns_None: "scanPatterns s ps = None \<longleftrightarrow> (\<forall>p \<in> set ps. \<not> sublist p s)"
  by (induction ps) (auto simp: Contains_sublist)

lemma sublist_map: "sublist w s \<Longrightarrow> sublist (map f w) (map f s)"
  unfolding sublist_def by (metis map_append)

lemma sublist_of_map: "sublist p (map f s) \<Longrightarrow> \<exists>w. sublist w s \<and> map f w = p"
proof -
  assume "sublist p (map f s)"
  then obtain u v where "map f s = u @ p @ v"
    by (auto simp: sublist_def)
  then obtain a b c where "s = a @ b @ c" and "map f b = p"
    by (metis map_eq_append_conv)
  then show ?thesis
    by (auto simp: sublist_def)
qed

text \<open>
  Claim C9. With every bin-name maximum \<open>n > 0\<close> the validator can be configured with: a bin
  name of exactly \<open>n\<close> allowed characters passes; every bin name one character longer than the
  maximum fails; every name with a character outside the allowed set fails (as a bin name, as a
  namespace and as a set name); the empty namespace fails; the empty set name passes.
\<close>

theorem validator_boundaries:
  "(0 < maxBinNameLength v \<and> int (length name) = maxBinNameLength v \<and> list_all identChar name
      \<longrightarrow> ValidateBinName v name = None)
   \<and> (int (length longer) = maxBinNameLength v + 1 \<longrightarrow> ValidateBinName v longer \<noteq> None)
   \<and> (\<not> list_all identChar bad \<longrightarrow>
        ValidateBinName v bad \<noteq> None \<and> ValidateNamespace v bad \<noteq> None
        \<and> ValidateSetName v bad \<noteq> None)
   \<and> ValidateNamespace v [] = Some \<lparr>Field = ''namespace'', Message = ''cannot be empty''\<rparr>
   \<and> ValidateSetName v [] = None"
proof -
  have exact: "ValidateBinName v name = None"
    if "0 < maxBinNameLength v" "int (length name) = maxBinNameLength v" "list_all identChar name"
  proof -
    from that have "name \<noteq> []" by auto
    with that show ?thesis
      by (simp add: ValidateBinName_def isValidIdentifier_iff)
  qed
  have long: "ValidateBinName v longer \<noteq> None"
    if "int (length longer) = maxBinNameLength v + 1"
    using that by (simp add: ValidateBinName_def)
  have bad: "ValidateBinName v bad \<noteq> None \<and> ValidateNamespace v bad \<noteq> None
      \<and> ValidateSetName v bad \<noteq> None" if "\<not> list_all identChar bad"
  proof -
    from that have "bad \<noteq> []" by auto
    with that show ?thesis
      by (simp add: ValidateBinName_def ValidateNamespace_def ValidateSetName_def
          isValidIdentifier_iff)
  qed
  have ns: "ValidateNamespace v [] = Some \<lparr>Field = ''namespace'', Message = ''cannot be empty''\<rparr>"
    by (simp add: ValidateNamespace_def)
  have sn: "ValidateSetName v [] = None"
    by (simp add: ValidateSetName_def)
  from exact long bad ns sn show ?thesis by blast
qed

theorem validator_boundaries_witness:
  "0 < maxBinNameLength (NewValidator DefaultValidatorConfig)
   \<and> int (length ''abcdefghijklmno'') = maxBinNameLength (NewValidator DefaultValidatorConfig)
   \<and> list_all identChar ''abcdefghijklmno''
   \<and> ValidateBinName (NewValidator DefaultValidatorConfig) ''abcdefghijklmno'' = None
   \<and> int (length ''abcdefghijklmnop'') = maxBinNameLength (NewValidator DefaultValidatorConfig) + 1
   \<and> ValidateBinName (NewValidator DefaultValidatorConfig) ''abcdefghijklmnop'' \<noteq> None
   \<and> \<not> list_all identChar ''bin name''
   \<and> ValidateBinName (NewValidator DefaultValidatorConfig) ''bin name'' \<noteq> None
   \<and> ValidateNamespace (NewValidator DefaultValidatorConfig) ''bin name'' \<noteq> None
   \<and> ValidateSetName (NewValidator DefaultValidatorConfig) ''bin name'' \<noteq> None"
proof -
  let ?v = "NewValidator DefaultValidatorConfig"
  have m: "maxBinNameLength ?v = 15"
    by (simp add: NewValidator_def DefaultValidatorConfig_def)
  have ok: "list_all identChar ''abcdefghijklmno''"
    by (simp add: identChar_def)
  have bad: "\<not> list_all identChar ''bin name''"
    by (simp add: identChar_def)
  from validator_boundaries [where v = ?v and name = "''abcdefghijklmno''"
      and longer = "''abcdefghijklmnop''" and bad = "''bin name''"] m ok bad
  show ?thesis by simp
qed

text \<open>
  Claim C10. \<^verbatim>\<open>ValidateUDFCode\<close> rejects a payload exactly when it is empty or its lower-cased
  form contains one of the four denylisted strings. For a payload of ASCII bytes this says: it
  is rejected exactly when it is empty or has a substring that spells a denylisted string in
  some mixture of letter cases; every other non-empty payload is accepted.
\<close>

theorem udf_denylist:
  "(ValidateUDFCode lowerUnicode code \<noteq> None \<longleftrightarrow>
      code = [] \<or> (\<exists>p \<in> {''os.execute'', ''io.popen'', ''loadfile'', ''dofile''}.
                      sublist p (ToLower lowerUnicode code)))
   \<and> (list_all isASCII code \<longrightarrow>
        (ValidateUDFCode lowerUnicode code \<noteq> None \<longleftrightarrow>
           code = [] \<or> (\<exists>p \<in> {''os.execute'', ''io.popen'', ''loadfile'', ''dofile''}.
                           \<exists>w. sublist w code \<and> map asciiLower w = p)))"
proof -
  have pats: "set dangerousPatterns = {''os.execute'', ''io.popen'', ''loadfile'', ''dofile''}"
    by (simp add: dangerousPatterns_def)
  have general: "ValidateUDFCode lowerUnicode code \<noteq> None \<longleftrightarrow>
      code = [] \<or> (\<exists>p \<in> set dangerousPatterns. sublist p (ToLower lowerUnicode code))"
    using scanPatterns_None [of "ToLower lowerUnicode code" dangerousPatterns]
    by (auto simp: ValidateUDFCode_def)
  have ascii: "(\<exists>p \<in> set dangerousPatterns. sublist p (ToLower lowerUnicode code)) \<longleftrightarrow>
      (\<exists>p \<in> set dangerousPatterns. \<exists>w. sublist w code \<and> map asciiLower w = p)"
    if "list_all isASCII code"
  proof -
    from that have "ToLower lowerUnicode code = map asciiLower code"
      by (simp add: ToLower_def)
    then show ?thesis
      by (metis sublist_map sublist_of_map)
  qed
  show ?thesis
    unfolding pats [symmetric] using general ascii by blast
qed

theorem udf_denylist_witness:
  "list_all isASCII ''x = Os.ExecUTE(1)''
   \<and> ValidateUDFCode (\<lambda>s. s) ''x = Os.ExecUTE(1)'' \<noteq> None
   \<and> list_all isASCII ''return 1''
   \<and> ValidateUDFCode (\<lambda>s. s) ''return 1'' = None"
proof -
  have pats: "set dangerousPatterns = {''os.execute'', ''io.popen'', ''loadfile'', ''dofile''}"
    by (simp add: dangerousPatterns_def)
  have a1: "list_all isASCII ''x = Os.ExecUTE(1)''"
    by (simp add: isASCII_def)
  have "sublist ''Os.ExecUTE'' (''x = '' @ ''Os.ExecUTE'' @ ''(1)'')"
    by (rule sublist_appendI)
  then have s1: "sublist ''Os.ExecUTE'' ''x = Os.ExecUTE(1)''"
    by simp
  have l1: "map asciiLower ''Os.ExecUTE'' = ''os.execute''"
    by code_simp
  have ex: "\<exists>p \<in> {''os.execute'', ''io.popen'', ''loadfile'', ''dofile''}.
      \<exists>w. sublist w ''x = Os.ExecUTE(1)'' \<and> map asciiLower w = p"
  proof (intro bexI exI conjI)
    show "sublist ''Os.ExecUTE'' ''x = Os.ExecUTE(1)''" by (rule s1)
    show "map asciiLower ''Os.ExecUTE'' = ''os.execute''" by (rule l1)
    show "''os.execute'' \<in> {''os.execute'', ''io.popen'', ''loadfile'', ''dofile''}"
      by (rule insertI1)
  qed
  have r1: "ValidateUDFCode (\<lambda>s. s) ''x = Os.ExecUTE(1)'' \<noteq> None"
    by (rule udf_denylist [of "\<lambda>s. s" "''x = Os.ExecUTE(1)''", THEN conjunct2, THEN mp,
          OF a1, THEN iffD2, OF disjI2, OF ex])
  have a2: "list_all isASCII ''return 1''"
    by (simp add: isASCII_def)
  have sp: "scanPatterns (ToLower (\<lambda>s. s) ''return 1'') dangerousPatterns = None"
    by code_simp
  have free: "\<not> (\<exists>p \<in> {''os.execute'', ''io.popen'', ''loadfile'', ''dofile''}.
      sublist p (ToLower (\<lambda>s. s) ''return 1''))"
    unfolding pats [symmetric] using sp [unfolded scanPatterns_None] by blast
  have ne: "''return 1'' \<noteq> []"
    by simp
  have r2: "ValidateUDFCode (\<lambda>s. s) ''return 1'' = None"
    using udf_denylist [of "\<lambda>s. s" "''return 1''", THEN conjunct1] free ne by blast
  show ?thesis
    by (intro conjI a1 r1 a2 r2)
qed

section \<open>Properties of the floating-point arithmetic\<close>

lemma bitLength_bounds: "0 < n \<Longrightarrow> 2 ^ (bitLength n - 1) \<le> n \<and> n < 2 ^ bitLength n"
proof (induction n rule: bitLength.induct)
  case (1 n)
  show ?case
  proof (cases "n div 2 = 0")
    case True
    with "1.prems" have "n = 1" by auto
    then show ?thesis by (simp add: bitLength.simps)
  next
    case False
    with "1.IH" "1.prems" have ih: "2 ^ (bitLength (n div 2) - 1) \<le> n div 2"
      "n div 2 < 2 ^ bitLength (n div 2)" by auto
    from False have pos: "0 < bitLength (n div 2)"
      by (subst bitLength.simps) simp
    have b: "bitLength n = Suc (bitLength (n div 2))"
      using "1.prems" by (subst bitLength.simps) simp
    from pos have p: "(2::nat) ^ bitLength (n div 2) = 2 * 2 ^ (bitLength (n div 2) - 1)"
      by (cases "bitLength (n div 2)") simp_all
    from ih(1) have "2 * 2 ^ (bitLength (n div 2) - 1) \<le> n" by simp
    moreover from ih(2) have "n < 2 * 2 ^ bitLength (n div 2)" by simp
    ultimately show ?thesis
      unfolding b using p by simp
  qed
qed

lemma bitLength_unique:
  assumes "2 ^ k \<le> n" "n < 2 ^ Suc k"
  shows "bitLength n = Suc k"
proof -
  from assms have pos: "0 < n" by (cases "n = 0") auto
  from bitLength_bounds [OF pos] have lo: "2 ^ (bitLength n - 1) \<le> n" and hi: "n < 2 ^ bitLength n"
    by simp_all
  from assms(1) hi have "(2::nat) ^ k < 2 ^ bitLength n" by (rule le_less_trans)
  then have 1: "k < bitLength n" by (rule power_less_imp_less_exp [rotated]) simp
  from lo assms(2) have "(2::nat) ^ (bitLength n - 1) < 2 ^ Suc k" by (rule le_less_trans)
  then have "bitLength n - 1 < Suc k" by (rule power_less_imp_less_exp [rotated]) simp
  with 1 show ?thesis by simp
qed

lemma round64_zero [simp]: "round64 0 = Finite 0"
  by (simp add: round64_def)

lemma roundHalfEven_of_int [simp]: "roundHalfEven (of_int z) = z"
  by (simp add: roundHalfEven_def)

lemma pow2_pos: "0 < pow2 k"
  by (simp add: pow2_def)

lemma round64_exact:
  assumes "x / pow2 (max (exponent x) (- 1022) - 52) = of_int z" and "\<bar>x\<bar> < pow2 1024"
  shows "round64 x = Finite x"
proof (cases "x = 0")
  case True
  then show ?thesis by simp
next
  case False
  let ?u = "pow2 (max (exponent x) (- 1022) - 52)"
  have u: "?u \<noteq> 0" using pow2_pos [of "max (exponent x) (- 1022) - 52"] by simp
  from assms(1) have "of_int (roundHalfEven (x / ?u)) * ?u = x / ?u * ?u"
    by simp
  also have "\<dots> = x" using u by simp
  finally have y: "of_int (roundHalfEven (x / ?u)) * ?u = x" .
  show ?thesis
    using False assms(2) by (simp add: round64_def Let_def y)
qed

lemma exponent_of_int:
  assumes "n \<noteq> 0"
  shows "exponent (of_int n) = int (bitLength (nat \<bar>n\<bar>)) - 1"
proof -
  from assms have "1 \<le> \<bar>n\<bar>" by simp
  then have "real_of_int 1 \<le> real_of_int \<bar>n\<bar>" by (simp only: of_int_le_iff)
  then have 1: "1 \<le> \<bar>real_of_int n\<bar>" by simp
  have "\<lfloor>real_of_int \<bar>n\<bar>\<rfloor> = \<bar>n\<bar>" by (rule floor_of_int)
  then have 2: "\<lfloor>\<bar>real_of_int n\<bar>\<rfloor> = \<bar>n\<bar>" by simp
  from 1 2 show ?thesis
    by (simp add: exponent_def)
qed

lemma round64_of_int:
  assumes "\<bar>n\<bar> \<le> 2 ^ 53"
  shows "round64 (of_int n) = Finite (of_int n)"
proof (cases "n = 0")
  case True
  then show ?thesis by simp
next
  case False
  let ?m = "nat \<bar>n\<bar>"
  let ?k = "bitLength ?m"
  from False have pos: "0 < ?m" by simp
  from bitLength_bounds [OF pos] have lo: "2 ^ (?k - 1) \<le> ?m" and hi: "?m < 2 ^ ?k"
    by simp_all
  from assms have m53: "?m \<le> 2 ^ 53"
    by (simp add: nat_le_iff)
  from hi pos have k1: "1 \<le> ?k"
    by (cases ?k) simp_all
  from lo m53 have "(2::nat) ^ (?k - 1) \<le> 2 ^ 53" by (rule order_trans)
  then have k54: "?k - 1 \<le> 53"
    by (rule power_le_imp_le_exp [rotated]) simp
  have e: "exponent (of_int n) = int ?k - 1"
    using False by (rule exponent_of_int)
  have mx: "max (int ?k - 1) (- 1022) = int ?k - 1"
    by simp
  have "\<exists>z. real_of_int n / pow2 (int ?k - 1 - 52) = of_int z"
  proof (cases "?k \<le> 53")
    case True
    then have "pow2 (int ?k - 1 - 52) = 1 / 2 ^ (53 - ?k)"
      by (cases "?k = 53") (auto simp: pow2_def nat_diff_distrib)
    then have "real_of_int n / pow2 (int ?k - 1 - 52) = of_int (n * 2 ^ (53 - ?k))"
      by simp
    then show ?thesis ..
  next
    case False
    with k54 have k: "?k = 54" by simp
    with lo have "2 ^ 53 \<le> ?m" by simp
    with m53 have "?m = 2 ^ 53" by simp
    then have "\<bar>n\<bar> = 2 ^ 53"
      by (metis abs_ge_zero int_nat_eq of_nat_numeral of_nat_power)
    then have n: "n = 2 ^ 53 \<or> n = - (2 ^ 53)" by (simp add: abs_if split: if_splits)
    have p: "pow2 (int ?k - 1 - 52) = 2"
      by (simp add: k pow2_def)
    from n show ?thesis
    proof
      assume "n = 2 ^ 53"
      then have "real_of_int n / pow2 (int ?k - 1 - 52) = of_int (2 ^ 52)"
        unfolding p by simp
      then show ?thesis ..
    next
      assume "n = - (2 ^ 53)"
      then have "real_of_int n / pow2 (int ?k - 1 - 52) = of_int (- (2 ^ 52))"
        unfolding p by simp
      then show ?thesis ..
    qed
  qed
  then obtain z where z: "real_of_int n / pow2 (max (exponent (of_int n)) (- 1022) - 52) = of_int z"
    unfolding e mx by blast
  from assms have "\<bar>real_of_int n\<bar> \<le> 2 ^ 53"
    by (metis of_int_abs of_int_le_iff of_int_numeral of_int_power)
  also have "(2::real) ^ 53 < pow2 1024"
    by (simp add: pow2_def)
  finally have "\<bar>real_of_int n\<bar> < pow2 1024" .
  with z show ?thesis by (rule round64_exact)
qed

lemma roundHalfEven_nonpos: "y \<le> 0 \<Longrightarrow> roundHalfEven y \<le> 0"
proof -
  assume y: "y \<le> 0"
  then have f: "\<lfloor>y\<rfloor> \<le> 0" by simp
  have "\<lfloor>y\<rfloor> + 1 \<le> 0" if "1 / 2 \<le> y - of_int \<lfloor>y\<rfloor>"
  proof -
    from that have "real_of_int \<lfloor>y\<rfloor> \<le> y - 1 / 2" by linarith
    with y have "real_of_int \<lfloor>y\<rfloor> < 0" by linarith
    then have "\<lfloor>y\<rfloor> < 0" by (simp only: of_int_less_0_iff)
    then show ?thesis by linarith
  qed
  with f show ?thesis
    by (auto simp: roundHalfEven_def Let_def)
qed

lemma round64_nonpos: "x \<le> 0 \<Longrightarrow> fle (round64 x) (Finite 0)"
proof -
  assume x: "x \<le> 0"
  let ?u = "pow2 (max (exponent x) (- 1022) - 52)"
  have u: "0 < ?u" by (rule pow2_pos)
  with x have "x / ?u \<le> 0" by (simp add: divide_le_0_iff)
  then have "roundHalfEven (x / ?u) \<le> 0" by (rule roundHalfEven_nonpos)
  then have "real_of_int (roundHalfEven (x / ?u)) \<le> 0" by simp
  with u have "real_of_int (roundHalfEven (x / ?u)) * ?u \<le> 0"
    by (simp add: mult_le_0_iff)
  with x show ?thesis
    by (simp add: round64_def Let_def)
qed

lemma bitLength_2p62: "bitLength 4611686018427387904 = 63"
proof -
  have "bitLength 4611686018427387904 = Suc 62"
    by (rule bitLength_unique) simp_all
  then show ?thesis by simp
qed

lemma bitLength_2p62m1: "bitLength 4611686018427387903 = 62"
proof -
  have "bitLength 4611686018427387903 = Suc 61"
    by (rule bitLength_unique) simp_all
  then show ?thesis by simp
qed

lemma round64_2p62: "round64 4611686018427387904 = Finite 4611686018427387904"
proof -
  have e: "exponent 4611686018427387904 = 62"
    by (simp add: exponent_def bitLength_2p62)
  have "(4611686018427387904::real) / pow2 (max (exponent 4611686018427387904) (- 1022) - 52)
      = of_int 4503599627370496"
    by (simp add: e pow2_def)
  moreover have "\<bar>4611686018427387904::real\<bar> < pow2 1024"
    by (simp add: pow2_def)
  ultimately show ?thesis by (rule round64_exact)
qed

lemma round64_2p62m1: "round64 4611686018427387903 = Finite 4611686018427387904"
proof -
  have e: "exponent 4611686018427387903 = 61"
    by (simp add: exponent_def bitLength_2p62m1)
  have u: "pow2 9 = 512"
    by (simp add: pow2_def)
  have r: "roundHalfEven (4611686018427387903 / 512) = 9007199254740992"
    by (simp add: roundHalfEven_def Let_def)
  have b: "\<not> pow2 1024 \<le> \<bar>4611686018427387904::real\<bar>"
    by (simp add: pow2_def)
  show ?thesis
    using b by (simp add: round64_def Let_def e u r)
qed

lemma fgt_irrefl: "\<not> fgt a a"
  by (cases a) (simp_all add: fgt_def)

section \<open>Properties of the rate limiter\<close>

lemma refill_bounded:
  "\<not> fgt (tokens (refill now r)) (maxTokens r) \<and> maxTokens (refill now r) = maxTokens r"
  by (simp add: refill_def Let_def fgt_irrefl)

lemma Seconds_zero: "Seconds (Sub t t) = Finite 0"
  by (simp add: Seconds_def Sub_def maxDuration_def minDuration_def ofInt_def
      signed_divide_int_def signed_modulo_int_def)

lemma refill_no_elapsed:
  assumes "lastRefill r = t" and "tokens r = Finite (of_int n)" and "\<bar>n\<bar> \<le> 2 ^ 53"
    and "refillRate r = Finite q" and "\<not> fgt (tokens r) (maxTokens r)"
  shows "refill t r = r"
proof -
  have "fadd (tokens r) (fmul (Seconds (Sub t t)) (refillRate r)) = tokens r"
    using assms(2,3,4) by (simp add: Seconds_zero round64_of_int)
  with assms(1,5) show ?thesis
    by (simp add: refill_def Let_def)
qed

lemma Allow_no_elapsed:
  assumes "enabled r" and "lastRefill r = t" and "tokens r = Finite (real n)" and "n \<le> 2 ^ 53"
    and "refillRate r = Finite q" and "\<not> fgt (tokens r) (maxTokens r)"
  shows "Allow t r =
    (if 1 \<le> n then (True, r\<lparr>tokens := Finite (real (n - 1))\<rparr>) else (False, r))"
proof -
  have t: "tokens r = Finite (of_int (int n))"
    using assms(3) by simp
  have b: "\<bar>int n\<bar> \<le> 2 ^ 53"
    using assms(4) by (simp add: nat_le_iff [symmetric] del: of_nat_le_iff) 
  have rf: "refill t r = r"
    using assms(2) t b assms(5,6) by (rule refill_no_elapsed)
  have sub: "fsub (Finite (real n)) (Finite 1) = Finite (real (n - 1))" if "1 \<le> n"
  proof -
    have "\<bar>int n - 1\<bar> \<le> 2 ^ 53" using b that by simp
    then have "round64 (of_int (int n - 1)) = Finite (of_int (int n - 1))"
      by (rule round64_of_int)
    moreover have "real_of_int (int n - 1) = real n - 1" by simp
    moreover have "real (n - 1) = real n - 1" using that by simp
    ultimately show ?thesis by (simp add: fsub_def)
  qed
  show ?thesis
    using assms(1,3) sub by (simp add: Allow_def rf Let_def fge_def)
qed

lemma AllowCalls_no_elapsed:
  "enabled r \<Longrightarrow> lastRefill r = t \<Longrightarrow> tokens r = Finite (real n) \<Longrightarrow> n \<le> 2 ^ 53
   \<Longrightarrow> refillRate r = Finite q \<Longrightarrow> \<not> fgt (tokens r) (maxTokens r)
   \<Longrightarrow> maxTokens r = Finite m
   \<Longrightarrow> fst (AllowCalls (replicate (Suc n) t) r) = replicate n True @ [False]"
proof (induction n arbitrary: r)
  case 0
  then have "Allow t r = (False, r)"
    using Allow_no_elapsed [of r t 0 q] by simp
  then show ?case by simp
next
  case (Suc n)
  let ?r1 = "r\<lparr>tokens := Finite (real n)\<rparr>"
  from Suc.prems have step: "Allow t r = (True, ?r1)"
    using Allow_no_elapsed [of r t "Suc n" q] by simp
  from Suc.prems have "real n \<le> m"
    by (simp add: fgt_def)
  with Suc.prems have "fst (AllowCalls (replicate (Suc n) t) ?r1) = replicate n True @ [False]"
    by (intro Suc.IH [of ?r1]) (simp_all add: fgt_def)
  with step show ?case
    by (simp add: split_beta)
qed

lemma NewRateLimiter_tokens:
  assumes "BurstSize cfg \<le> 2 ^ 53"
    and "C = (if BurstSize cfg \<le> 0 then 200 else nat (BurstSize cfg))"
  shows "tokens (NewRateLimiter t cfg) = Finite (real C)"
    and "maxTokens (NewRateLimiter t cfg) = Finite (real C)"
    and "C \<le> 2 ^ 53"
proof -
  have "(if fle (ofInt (BurstSize cfg)) (Finite 0) then Finite 200 else ofInt (BurstSize cfg))
      = Finite (real C) \<and> C \<le> 2 ^ 53"
  proof (cases "BurstSize cfg \<le> 0")
    case True
    then have "real_of_int (BurstSize cfg) \<le> 0" by simp
    then have "fle (ofInt (BurstSize cfg)) (Finite 0)"
      unfolding ofInt_def by (rule round64_nonpos)
    with True assms(2) show ?thesis by simp
  next
    case False
    with assms(1) have "\<bar>BurstSize cfg\<bar> \<le> 2 ^ 53" by simp
    then have o: "ofInt (BurstSize cfg) = Finite (of_int (BurstSize cfg))"
      unfolding ofInt_def by (rule round64_of_int)
    from False assms(2) have c: "real C = real_of_int (BurstSize cfg)" by simp
    from False assms have "int C \<le> 2 ^ 53" by simp
    then have "C \<le> 2 ^ 53" by (simp add: nat_le_iff [symmetric] del: of_nat_le_iff)
    with False o c show ?thesis by simp
  qed
  then show "tokens (NewRateLimiter t cfg) = Finite (real C)"
    and "maxTokens (NewRateLimiter t cfg) = Finite (real C)" and "C \<le> 2 ^ 53"
    by (simp_all add: NewRateLimiter_def Let_def)
qed

lemma NewRateLimiter_rate:
  assumes "RequestsPerSec cfg \<noteq> PosInf" and "RequestsPerSec cfg \<noteq> NaN"
  shows "\<exists>q. refillRate (NewRateLimiter t cfg) = Finite q"
  using assms by (cases "RequestsPerSec cfg") (simp_all add: NewRateLimiter_def Let_def)

lemma AllowCalls_unchanged:
  "Allow t r = (True, r) \<Longrightarrow> AllowCalls (replicate n t) r = (replicate n True, r)"
  by (induction n) simp_all

text \<open>
  Claim C7 fails on the code for a capacity that \<^verbatim>\<open>float64\<close> cannot count down from, and for
  a refill rate that is not a finite number. With burst size \<open>2^62\<close> the decrement
  \<^verbatim>\<open>r.tokens--\<close> rounds back to \<open>2^62\<close>, so \<^verbatim>\<open>Allow\<close> leaves the limiter as it is and never
  refuses. With the rate \<open>+Inf\<close> and no elapsed time the refill adds \<open>0 * Inf\<close>, which is
  not a number, and the first call is refused.
\<close>

theorem huge_burst_never_refuses:
  "fst (AllowCalls (replicate (2 ^ 62 + 1) 7)
         (NewRateLimiter 7 \<lparr>Enabled = True, RequestsPerSec = Finite 100, BurstSize = 2 ^ 62\<rparr>))
     \<noteq> replicate (2 ^ 62) True @ [False]
   \<and> fst (AllowCalls (replicate (5 + 1) 7)
         (NewRateLimiter 7 \<lparr>Enabled = True, RequestsPerSec = PosInf, BurstSize = 5\<rparr>))
     \<noteq> replicate 5 True @ [False]"
proof
  let ?r = "NewRateLimiter 7 \<lparr>Enabled = True, RequestsPerSec = Finite 100, BurstSize = 2 ^ 62\<rparr>"
  have r: "?r = \<lparr>tokens = Finite 4611686018427387904, maxTokens = Finite 4611686018427387904,
      refillRate = Finite 100, lastRefill = 7, enabled = True\<rparr>"
    by (simp add: NewRateLimiter_def Let_def ofInt_def round64_2p62)
  have rf: "refill 7 ?r = ?r"
    unfolding r by (simp add: refill_def Let_def Seconds_zero round64_2p62 fgt_def)
  have "Allow 7 ?r = (True, ?r)"
    unfolding Allow_def rf unfolding r
    by (simp add: fge_def fsub_def round64_2p62m1)
  then have "fst (AllowCalls (replicate (2 ^ 62 + 1) 7) ?r) = replicate (2 ^ 62 + 1) True"
    by (simp only: AllowCalls_unchanged fst_conv)
  also have "\<dots> = replicate (2 ^ 62) True @ [True]"
    by (simp only: replicate_add replicate.simps One_nat_def)
  also have "\<dots> \<noteq> replicate (2 ^ 62) True @ [False]"
    by (simp only: same_append_eq) simp
  finally show "fst (AllowCalls (replicate (2 ^ 62 + 1) 7) ?r)
     \<noteq> replicate (2 ^ 62) True @ [False]" .
next
  let ?r = "NewRateLimiter 7 \<lparr>Enabled = True, RequestsPerSec = PosInf, BurstSize = 5\<rparr>"
  have five: "ofInt 5 = Finite 5"
    using round64_of_int [of 5] by (simp add: ofInt_def)
  have r: "?r = \<lparr>tokens = Finite 5, maxTokens = Finite 5,
      refillRate = PosInf, lastRefill = 7, enabled = True\<rparr>"
    by (simp add: NewRateLimiter_def Let_def five)
  have "fst (Allow 7 ?r) = False"
    unfolding r by (simp add: Allow_def refill_def Let_def Seconds_zero fgt_def fge_def)
  then have "hd (fst (AllowCalls (replicate (5 + 1) 7) ?r)) = False"
    by (simp add: split_beta numeral_eq_Suc)
  moreover have "hd (replicate 5 True @ [False]) = True"
    by (simp add: numeral_eq_Suc)
  ultimately show "fst (AllowCalls (replicate (5 + 1) 7) ?r) \<noteq> replicate 5 True @ [False]"
    by auto
qed

text \<open>
  Claim C7 as amended. An enabled limiter constructed with a burst size \<open>C\<close> of at most
  \<open>2^53\<close> (200 when the configured size is not positive) and with a refill rate that is
  neither \<open>+Inf\<close> nor not-a-number admits exactly \<open>C\<close> consecutive calls of \<^verbatim>\<open>Allow\<close>
  made at the instant of its construction and refuses the next one; and after any refill the
  token count does not exceed the capacity, which the refill leaves unchanged.
\<close>

theorem rate_limiter_burst:
  "(Enabled cfg \<and> BurstSize cfg \<le> 2 ^ 53
      \<and> RequestsPerSec cfg \<noteq> PosInf \<and> RequestsPerSec cfg \<noteq> NaN
      \<and> C = (if BurstSize cfg \<le> 0 then 200 else nat (BurstSize cfg)) \<longrightarrow>
      fst (AllowCalls (replicate (C + 1) t) (NewRateLimiter t cfg)) = replicate C True @ [False])
   \<and> \<not> fgt (tokens (refill now r)) (maxTokens r) \<and> maxTokens (refill now r) = maxTokens r"
proof -
  have "fst (AllowCalls (replicate (C + 1) t) (NewRateLimiter t cfg)) = replicate C True @ [False]"
    if en: "Enabled cfg" and b: "BurstSize cfg \<le> 2 ^ 53"
      and q: "RequestsPerSec cfg \<noteq> PosInf" "RequestsPerSec cfg \<noteq> NaN"
      and C: "C = (if BurstSize cfg \<le> 0 then 200 else nat (BurstSize cfg))"
  proof -
    let ?r = "NewRateLimiter t cfg"
    note tk = NewRateLimiter_tokens(1) [OF b C, of t] NewRateLimiter_tokens(2) [OF b C, of t]
      NewRateLimiter_tokens(3) [OF b C]
    from NewRateLimiter_rate [of cfg t, OF q] obtain q' where rate: "refillRate ?r = Finite q'" ..
    have 1: "enabled ?r" "lastRefill ?r = t"
      using en by (simp_all add: NewRateLimiter_def Let_def)
    have 2: "\<not> fgt (tokens ?r) (maxTokens ?r)"
      by (simp add: tk fgt_def)
    from AllowCalls_no_elapsed [OF 1 tk(1) tk(3) rate 2 tk(2)] show ?thesis
      by simp
  qed
  with refill_bounded show ?thesis by blast
qed

theorem rate_limiter_burst_witness:
  "Enabled \<lparr>Enabled = True, RequestsPerSec = Finite 10, BurstSize = 5\<rparr>
   \<and> fst (AllowCalls [7, 7, 7, 7, 7, 7]
        (NewRateLimiter 7 \<lparr>Enabled = True, RequestsPerSec = Finite 10, BurstSize = 5\<rparr>))
      = [True, True, True, True, True, False]"
proof -
  let ?cfg = "\<lparr>Enabled = True, RequestsPerSec = Finite 10, BurstSize = 5\<rparr>"
  have en: "Enabled ?cfg" by simp
  have h: "Enabled ?cfg \<and> BurstSize ?cfg \<le> 2 ^ 53
      \<and> RequestsPerSec ?cfg \<noteq> PosInf \<and> RequestsPerSec ?cfg \<noteq> NaN
      \<and> (5::nat) = (if BurstSize ?cfg \<le> 0 then 200 else nat (BurstSize ?cfg))"
    by simp
  have r: "replicate (5 + 1) (7::int) = [7, 7, 7, 7, 7, 7]"
    by (simp add: numeral_eq_Suc)
  have b: "replicate 5 True @ [False] = [True, True, True, True, True, False]"
    by (simp add: numeral_eq_Suc)
  from rate_limiter_burst [of ?cfg 5 7, THEN conjunct1, THEN mp, OF h]
  have "fst (AllowCalls (replicate (5 + 1) 7) (NewRateLimiter 7 ?cfg)) = replicate 5 True @ [False]" .
  then have "fst (AllowCalls [7, 7, 7, 7, 7, 7] (NewRateLimiter 7 ?cfg))
      = [True, True, True, True, True, False]"
    unfolding r b .
  with en show ?thesis by (rule conjI)
qed

section \<open>Properties of the session queues\<close>

text \<open>
  Claim C8. When a session's queue is at capacity, the push-stream transport leaves the queue as
  it is and drops the new message, and the polling transport removes the oldest queued message
  and appends the new one; with room in the queue both append the new message. Both are
  functions of the queue and the message.
\<close>

theorem queue_full_policies:
  "(length (queue ch) = capacity ch \<and> 0 < capacity ch \<longrightarrow>
      sseEnqueue sid m ch = (ch, [''Client message buffer full: '' @ sid])
      \<and> wsEnqueue m ch = Some (ch\<lparr>queue := tl (queue ch) @ [m]\<rparr>))
   \<and> (length (queue ch) < capacity ch \<longrightarrow>
      sseEnqueue sid m ch = (ch\<lparr>queue := queue ch @ [m]\<rparr>, [])
      \<and> wsEnqueue m ch = Some (ch\<lparr>queue := queue ch @ [m]\<rparr>))"
proof (intro conjI impI)
  assume full: "length (queue ch) = capacity ch \<and> 0 < capacity ch"
  then show "sseEnqueue sid m ch = (ch, [''Client message buffer full: '' @ sid])"
    by (simp add: sseEnqueue_def trySend_def)
  from full obtain x xs where q: "queue ch = x # xs"
    by (cases "queue ch") auto
  with full show "wsEnqueue m ch = Some (ch\<lparr>queue := tl (queue ch) @ [m]\<rparr>)"
    by (auto simp add: wsEnqueue_def trySend_def tryReceive_def send_def)
next
  assume room: "length (queue ch) < capacity ch"
  then show "sseEnqueue sid m ch = (ch\<lparr>queue := queue ch @ [m]\<rparr>, [])"
    by (simp add: sseEnqueue_def trySend_def)
  from room show "wsEnqueue m ch = Some (ch\<lparr>queue := queue ch @ [m]\<rparr>)"
    by (simp add: wsEnqueue_def trySend_def)
qed

theorem queue_full_policies_witness:
  "length (queue (newClientMessages\<lparr>queue := replicate 100 ''old''\<rparr>))
     = capacity (newClientMessages\<lparr>queue := replicate 100 ''old''\<rparr>)
   \<and> 0 < capacity (newClientMessages\<lparr>queue := replicate 100 ''old''\<rparr>)
   \<and> sseEnqueue ''s1'' ''new'' (newClientMessages\<lparr>queue := replicate 100 ''old''\<rparr>)
       = (newClientMessages\<lparr>queue := replicate 100 ''old''\<rparr>, [''Client message buffer full: s1''])
   \<and> wsEnqueue ''new'' (newClientMessages\<lparr>queue := replicate 100 ''old''\<rparr>)
       = Some (newClientMessages\<lparr>queue := replicate 99 ''old'' @ [''new'']\<rparr>)
   \<and> length (queue (newClientMessages\<lparr>queue := [''old'']\<rparr>))
       < capacity (newClientMessages\<lparr>queue := [''old'']\<rparr>)
   \<and> sseEnqueue ''s1'' ''new'' (newClientMessages\<lparr>queue := [''old'']\<rparr>)
       = (newClientMessages\<lparr>queue := [''old'', ''new'']\<rparr>, [])
   \<and> wsEnqueue ''new'' (newClientMessages\<lparr>queue := [''old'']\<rparr>)
       = Some (newClientMessages\<lparr>queue := [''old'', ''new'']\<rparr>)"
proof -
  let ?full = "newClientMessages\<lparr>queue := replicate 100 ''old''\<rparr>"
  let ?one = "newClientMessages\<lparr>queue := [''old'']\<rparr>"
  have f: "length (queue ?full) = capacity ?full \<and> 0 < capacity ?full"
    by (simp add: newClientMessages_def make_chan_def)
  have o: "length (queue ?one) < capacity ?one"
    by (simp add: newClientMessages_def make_chan_def)
  have t: "tl (replicate 100 ''old'') = replicate 99 ''old''"
    by (simp add: tl_replicate)
  from queue_full_policies [of ?full "''s1''" "''new''", THEN conjunct1, THEN mp, OF f]
  have 1: "sseEnqueue ''s1'' ''new'' ?full = (?full, [''Client message buffer full: s1''])
      \<and> wsEnqueue ''new'' ?full = Some (newClientMessages\<lparr>queue := replicate 99 ''old'' @ [''new'']\<rparr>)"
    by (simp add: t)
  from queue_full_policies [of ?one "''s1''" "''new''", THEN conjunct2, THEN mp, OF o]
  have 2: "sseEnqueue ''s1'' ''new'' ?one = (newClientMessages\<lparr>queue := [''old'', ''new'']\<rparr>, [])
      \<and> wsEnqueue ''new'' ?one = Some (newClientMessages\<lparr>queue := [''old'', ''new'']\<rparr>)"
    by simp
  from f o 1 2 show ?thesis
    by (intro conjI) (rule conjunct1, assumption | rule conjunct2, assumption | assumption)+
qed

section \<open>Properties of the audit ring\<close>

lemma Log_buffer:
  assumes "logEnabled l" "marshal (stamp (now, e)) = Inr d"
  shows "buffer (Log marshal now l e) =
           (if int (length (buffer l)) + 1 \<ge> bufSize l
            then tl (buffer l @ [stamp (now, e)]) else buffer l @ [stamp (now, e)])"
    and "logEnabled (Log marshal now l e)" and "bufSize (Log marshal now l e) = bufSize l"
  using assms by (cases "IsZero (Timestamp e)"; simp add: Log_def stamp_def Let_def)+

lemma ring_step:
  assumes "0 < m" "length b \<le> m - 1"
  shows "(if int (length b) + 1 \<ge> int m then tl (b @ [x]) else b @ [x])
          = drop (length (b @ [x]) - (m - 1)) (b @ [x])"
proof (cases "length b = m - 1")
  case True
  with assms have e: "length (b @ [x]) - (m - 1) = Suc 0" by simp
  from True assms have ge: "int (length b) + 1 \<ge> int m" by simp
  show ?thesis by (simp only: e ge if_True drop_Suc drop_0)
next
  case False
  with assms have lt: "length b + 1 \<le> m - 1" by simp
  then have "\<not> int (length b) + 1 \<ge> int m" by arith
  with lt show ?thesis by simp
qed

lemma keep_last_append:
  "drop (length (drop (length xs - k) xs @ ys) - k) (drop (length xs - k) xs @ ys)
   = drop (length (xs @ ys) - k) (xs @ ys)"
proof (cases "length xs \<le> k")
  case True
  then show ?thesis by simp
next
  case False
  then have a: "length ys + (length xs - k) = length xs + length ys - k" by simp
  from False have b: "length xs - (length xs - k) = k" by simp
  have c: "k + length ys - k = length ys" by simp
  have d: "length ys - k = length xs + length ys - k - length xs" using False by simp
  show ?thesis
    by (simp only: drop_append length_drop length_append drop_drop b c a d)
qed

lemma LogAll_buffer:
  "logEnabled l \<Longrightarrow> 0 < bufSize l \<Longrightarrow> int (length (buffer l)) < bufSize l
   \<Longrightarrow> \<forall>p \<in> set es. \<exists>d. marshal (stamp p) = Inr d
   \<Longrightarrow> buffer (LogAll marshal l es) =
         drop (length (buffer l @ map stamp es) - (nat (bufSize l) - 1)) (buffer l @ map stamp es)"
proof (induction es arbitrary: l)
  case Nil
  then show ?case by simp
next
  case (Cons p es)
  obtain now e where p: "p = (now, e)" by (cases p)
  from Cons.prems p obtain d where d: "marshal (stamp (now, e)) = Inr d" by auto
  let ?l = "Log marshal now l e"
  let ?m = "nat (bufSize l)"
  have m: "0 < ?m" "length (buffer l) \<le> ?m - 1" "int ?m = bufSize l"
    using Cons.prems by simp_all
  have "buffer ?l = (if int (length (buffer l)) + 1 \<ge> bufSize l
      then tl (buffer l @ [stamp p]) else buffer l @ [stamp p])"
    unfolding p by (rule Log_buffer(1) [of l marshal now e d, OF Cons.prems(1) d])
  also have "\<dots> = drop (length (buffer l @ [stamp p]) - (?m - 1)) (buffer l @ [stamp p])"
    by (rule ring_step [OF m(1,2), of "stamp p", unfolded m(3)])
  finally have b: "buffer ?l =
      drop (length (buffer l @ [stamp p]) - (?m - 1)) (buffer l @ [stamp p])" .
  have len: "int (length (buffer ?l)) < bufSize ?l"
    using b m Log_buffer(3) [of l marshal now e d, OF Cons.prems(1) d] by simp
  have ih: "buffer (LogAll marshal ?l es) =
      drop (length (buffer ?l @ map stamp es) - (?m - 1)) (buffer ?l @ map stamp es)"
    using Cons.IH [of ?l] Log_buffer(2,3) [of l marshal now e d, OF Cons.prems(1) d] Cons.prems len by simp
  have "buffer (LogAll marshal l (p # es)) =
      drop (length (buffer ?l @ map stamp es) - (?m - 1)) (buffer ?l @ map stamp es)"
    using ih by (simp add: p)
  also have "\<dots> = drop (length ((buffer l @ [stamp p]) @ map stamp es) - (?m - 1))
      ((buffer l @ [stamp p]) @ map stamp es)"
    unfolding b by (rule keep_last_append)
  also have "(buffer l @ [stamp p]) @ map stamp es = buffer l @ map stamp (p # es)"
    by simp
  finally show ?case .
qed


text \<open>
  Claim C3 fails on the code: \<^verbatim>\<open>Log\<close> drops the oldest event as soon as the buffer reaches
  \<^verbatim>\<open>bufSize\<close>, so a ring of capacity \<open>N\<close> retains \<open>N - 1\<close> events. With capacity 3 and four
  logged events, \<^verbatim>\<open>GetRecentEvents(3)\<close> returns the last two.
\<close>

theorem ring_buffer_loses_one:
  "NewLogger None \<lparr>cfgEnabled = True, FilePath = [], BufferSize = 3, MinLevel = LevelInfo\<rparr>
     = Inr ring3
   \<and> map_option (map Operation)
       (GetRecentEvents
          (LogAll (\<lambda>e. Inr (Operation e)) ring3
             [(1, opEvent ''op1''), (2, opEvent ''op2''), (3, opEvent ''op3''), (4, opEvent ''op4'')])
          3)
     = Some [''op3'', ''op4'']"
  by (simp add: NewLogger_def ring3_def opEvent_def Event0_def Log_def GetRecentEvents_def
      IsZero_def Let_def)

text \<open>In general a ring of capacity \<open>N\<close> returns the last \<open>N - 1\<close> events.\<close>

lemma ring_buffer_retains:
  assumes "logEnabled l" "buffer l = []" "0 < bufSize l"
    and "\<forall>p \<in> set es. \<exists>d. marshal (stamp p) = Inr d"
    and "int (length es) \<ge> bufSize l"
  shows "GetRecentEvents (LogAll marshal l es) (bufSize l)
           = Some (drop (length es - (nat (bufSize l) - 1)) (map stamp es))"
    and "length (drop (length es - (nat (bufSize l) - 1)) (map stamp es)) = nat (bufSize l) - 1"
proof -
  have bs: "bufSize (LogAll marshal l es) = bufSize l" for l
    by (induction es arbitrary: l) (auto simp: Log_def Let_def split: sum.splits)
  have b: "buffer (LogAll marshal l es) = drop (length es - (nat (bufSize l) - 1)) (map stamp es)"
    using LogAll_buffer [of l es marshal] assms by simp
  show len: "length (drop (length es - (nat (bufSize l) - 1)) (map stamp es)) = nat (bufSize l) - 1"
    using assms by simp
  show "GetRecentEvents (LogAll marshal l es) (bufSize l)
           = Some (drop (length es - (nat (bufSize l) - 1)) (map stamp es))"
    unfolding GetRecentEvents_def b bs len Let_def using assms(3) by simp
qed

section \<open>Properties of the dispatcher\<close>

lemma handleMessage_routed:
  assumes "unmarshalRequest env message = Inr req" "req_JSONRPC req = ''2.0''"
  shows "handleMessage env clk s message =
           (let r = routeMethod env clk s (Method req) (Params req)
            in (Some \<lparr>JSONRPC = ''2.0'', ID = req_ID req,
                      Result = (if snd (fst r) \<noteq> None then None else fst (fst r)),
                      Error = snd (fst r)\<rparr>, snd r))"
  using assms by (auto simp: handleMessage_def Let_def split: prod.splits)

lemma routeMethod_tools_call:
  "routeMethod env clk s ''tools/call'' params =
     (asResult ToolsCallRes (fst (handleToolsCall env clk s params)),
      snd (handleToolsCall env clk s params))"
  by (simp add: routeMethod_def split_beta)

lemma routeMethod_resources_read:
  "routeMethod env clk s ''resources/read'' params =
     (asResult ResourcesReadRes (handleResourcesRead env params), s)"
  by (simp add: routeMethod_def)

lemma tools_call_response:
  assumes "unmarshalRequest env message = Inr req" "req_JSONRPC req = ''2.0''"
    and "Method req = ''tools/call''"
  shows "handleMessage env clk s message =
    (Some \<lparr>JSONRPC = ''2.0'', ID = req_ID req,
            Result = (if snd (fst (handleToolsCall env clk s (Params req))) \<noteq> None then None
                      else map_option ToolsCallRes (fst (fst (handleToolsCall env clk s (Params req))))),
            Error = snd (fst (handleToolsCall env clk s (Params req)))\<rparr>,
     snd (handleToolsCall env clk s (Params req)))"
  using assms
  by (simp add: handleMessage_routed [of env message req] routeMethod_tools_call asResult_def Let_def)

lemma always_a_response: "\<exists>r. fst (handleMessage env clk s message) = Some r"
  by (auto simp: handleMessage_def Let_def split: sum.splits prod.splits)

lemma response_echoes_id:
  "unmarshalRequest env message = Inr req \<Longrightarrow>
   \<exists>r. fst (handleMessage env clk s message) = Some r \<and> ID r = req_ID req"
  by (auto simp: handleMessage_def Let_def split: sum.splits prod.splits)

lemma response_never_both:
  "fst (handleMessage env clk s message) = Some r \<Longrightarrow> Result r = None \<or> Error r = None"
  by (auto simp: handleMessage_def Let_def split: sum.splits prod.splits if_splits)

lemma handleToolsCall_one:
  "(fst (fst (handleToolsCall env clk s params)) = None)
     \<noteq> (snd (fst (handleToolsCall env clk s params)) = None)"
  by (auto simp: handleToolsCall_def invokeTool_def split_beta Let_def split: sum.splits)

lemma response_exactly_one:
  assumes "unmarshalRequest env message = Inr req" "req_JSONRPC req = ''2.0''"
    and "Method req \<noteq> ''initialized''" "Method req \<noteq> ''shutdown''"
    and "fst (handleMessage env clk s message) = Some r"
  shows "(Result r = None) \<noteq> (Error r = None)"
proof -
  have "(fst (fst (routeMethod env clk s (Method req) (Params req))) = None)
      \<noteq> (snd (fst (routeMethod env clk s (Method req) (Params req))) = None)"
    using assms(3,4) handleToolsCall_one [of env clk s "Params req"]
    by (auto simp: routeMethod_def asResult_def split_beta handleInitialize_def Let_def
        handleToolsList_def handleResourcesList_def handleResourcesRead_def
        split: option.splits sum.splits)
  with assms(1,2,5) show ?thesis
    by (auto simp: handleMessage_routed [of env message req] Let_def)
qed

lemma auditLog_fields [simp]:
  "toolCalls (auditLog env now s e) = toolCalls s"
  "rateLimiter (auditLog env now s e) = rateLimiter s"
  by (simp_all add: auditLog_def split: option.splits)

lemma Call_fields:
  "rateLimiter (snd (Call env name args s)) = rateLimiter s"
  "auditLogger (snd (Call env name args s)) = auditLogger s"
  "fst (Call env name args s) = fst (Call env name args s')"
  by (simp_all add: Call_def split: option.splits)

lemma handleToolsCall_limited:
  assumes "unmarshalToolsCallParams env (rawBytes params) = Inr cp"
    and "isWriteOperation (Name cp)"
    and "\<not> fst (Allow (allowTime clk) (rateLimiter s))"
  shows "handleToolsCall env clk s params =
    ((Some \<lparr>Content = [\<lparr>Type = ''text'',
                          Text = ''Error: rate limit exceeded, please try again later''\<rparr>],
             IsError = True\<rparr>, None),
     auditLog env (logTime clk) (s\<lparr>rateLimiter := snd (Allow (allowTime clk) (rateLimiter s))\<rparr>)
       (Event0\<lparr>Level := LevelWarning, Category := CategoryWrite, Operation := Name cp,
          Success := False, ErrorText := ''rate limit exceeded''\<rparr>))"
  using assms by (simp add: handleToolsCall_def split_beta Let_def)

lemma handleToolsCall_admitted:
  assumes "unmarshalToolsCallParams env (rawBytes params) = Inr cp"
    and "\<not> (isWriteOperation (Name cp) \<and> \<not> fst (Allow (allowTime clk) (rateLimiter s)))"
  shows "handleToolsCall env clk s params =
    invokeTool env clk
      (if isWriteOperation (Name cp)
       then s\<lparr>rateLimiter := snd (Allow (allowTime clk) (rateLimiter s))\<rparr> else s) cp"
  using assms by (auto simp add: handleToolsCall_def split_beta Let_def)

lemma invokeTool_failure:
  assumes "fst (Call env (Name cp) (Arguments cp) s) = Inl msg"
  shows "fst (invokeTool env clk s cp) =
    (Some \<lparr>Content = [\<lparr>Type = ''text'', Text = ''Error: '' @ msg\<rparr>], IsError = True\<rparr>, None)"
  using assms by (simp add: invokeTool_def split_beta Let_def)


lemma exhausted: "Allow (allowTime exampleClock) (rateLimiter exampleServer) = (False, exhaustedLimiter)"
  using Allow_no_elapsed [of exhaustedLimiter 1000 0 10]
  by (simp add: exampleClock_def exampleServer_def exhaustedLimiter_def fgt_def)

text \<open>
  Claim C1 fails on the code for notifications: \<^verbatim>\<open>handleMessage\<close> never returns \<^verbatim>\<open>nil\<close>
  (lemma \<open>always_a_response\<close>), so the \<^verbatim>\<open>initialized\<close> notification, for which
  \<^verbatim>\<open>routeMethod\<close> notes that no response is needed, is answered with a response that has no
  id. The first half of the claim holds: the response to a decoded request carries the
  request's id (lemma \<open>response_echoes_id\<close>).
\<close>

theorem notification_answered:
  "fst (handleMessage
          (env\<lparr>unmarshalRequest := \<lambda>message. Inr \<lparr>req_JSONRPC = ''2.0'', req_ID = None,
                  Method = ''initialized'', Params = None\<rparr>\<rparr>) clk s message)
     = Some \<lparr>JSONRPC = ''2.0'', ID = None, Result = None, Error = None\<rparr>"
  by (simp add: handleMessage_def routeMethod_def)

text \<open>
  Claim C5 fails on the code for the lifecycle methods: the response to \<^verbatim>\<open>initialized\<close> and
  to \<^verbatim>\<open>shutdown\<close>, with or without an id, has neither a result nor an error. No response has
  both (lemma \<open>response_never_both\<close>), and the response to every other method of a
  well-formed envelope has exactly one (lemma \<open>response_exactly_one\<close>).
\<close>

theorem lifecycle_response_empty:
  "fst (handleMessage
          (env\<lparr>unmarshalRequest := \<lambda>message. Inr \<lparr>req_JSONRPC = ''2.0'', req_ID = i,
                  Method = ''initialized'', Params = params\<rparr>\<rparr>) clk s message)
     = Some \<lparr>JSONRPC = ''2.0'', ID = i, Result = None, Error = None\<rparr>
   \<and> fst (handleMessage
          (env\<lparr>unmarshalRequest := \<lambda>message. Inr \<lparr>req_JSONRPC = ''2.0'', req_ID = i,
                  Method = ''shutdown'', Params = params\<rparr>\<rparr>) clk s message)
     = Some \<lparr>JSONRPC = ''2.0'', ID = i, Result = None, Error = None\<rparr>"
  by (simp add: handleMessage_def routeMethod_def)

text \<open>
  Claim C2 fails on the code for \<^verbatim>\<open>resources/read\<close>: a failed resource read is answered with
  the protocol-level error \<open>-32603\<close>. The example reads a URI with a foreign scheme.
\<close>

theorem resource_read_failure_is_protocol_error:
  "fst (handleMessage (exampleEnv (exampleRequest ''resources/read'' ''http://x''))
          exampleClock exampleServer [])
     = Some \<lparr>JSONRPC = ''2.0'', ID = Some 1, Result = None,
              Error = Some \<lparr>Code = - 32603, ErrMessage = ''Resource read failed'',
                            Data = Some ''invalid URI scheme: http://x''\<rparr>\<rparr>"
  by (simp add: handleMessage_def routeMethod_def handleResourcesRead_def Read_def asResult_def
      exampleEnv_def exampleRequest_def rawBytes_def InternalError_def)

text \<open>
  Claim C2 as amended. A \<^verbatim>\<open>tools/call\<close> that passes the rate limit and whose tool fails, or
  whose tool is unknown, is answered with a result that is flagged as an error and carries the
  text \<^verbatim>\<open>Error: \<close> followed by the downstream message, and with no protocol-level error. A
  \<^verbatim>\<open>resources/read\<close> whose read fails is answered with the protocol-level error \<open>-32603\<close>
  \<^verbatim>\<open>Resource read failed\<close>, whose data is the downstream message.
\<close>

theorem downstream_failure_reporting:
  "(unmarshalRequest env message = Inr req \<and> req_JSONRPC req = ''2.0''
      \<and> Method req = ''tools/call''
      \<and> unmarshalToolsCallParams env (rawBytes (Params req)) = Inr cp
      \<and> \<not> (isWriteOperation (Name cp) \<and> \<not> fst (Allow (allowTime clk) (rateLimiter s)))
      \<and> fst (Call env (Name cp) (Arguments cp) s) = Inl msg
    \<longrightarrow> fst (handleMessage env clk s message) =
          Some \<lparr>JSONRPC = ''2.0'', ID = req_ID req,
                 Result = Some (ToolsCallRes
                   \<lparr>Content = [\<lparr>Type = ''text'', Text = ''Error: '' @ msg\<rparr>], IsError = True\<rparr>),
                 Error = None\<rparr>)
   \<and> (unmarshalRequest env message = Inr req \<and> req_JSONRPC req = ''2.0''
      \<and> Method req = ''resources/read''
      \<and> unmarshalResourcesReadParams env (rawBytes (Params req)) = Inr uri
      \<and> Read env uri = Inl msg
    \<longrightarrow> fst (handleMessage env clk s message) =
          Some \<lparr>JSONRPC = ''2.0'', ID = req_ID req, Result = None,
                 Error = Some \<lparr>Code = - 32603, ErrMessage = ''Resource read failed'',
                               Data = Some msg\<rparr>\<rparr>)"
proof (intro conjI impI)
  assume a: "unmarshalRequest env message = Inr req \<and> req_JSONRPC req = ''2.0''
      \<and> Method req = ''tools/call''
      \<and> unmarshalToolsCallParams env (rawBytes (Params req)) = Inr cp
      \<and> \<not> (isWriteOperation (Name cp) \<and> \<not> fst (Allow (allowTime clk) (rateLimiter s)))
      \<and> fst (Call env (Name cp) (Arguments cp) s) = Inl msg"
  let ?s = "if isWriteOperation (Name cp)
       then s\<lparr>rateLimiter := snd (Allow (allowTime clk) (rateLimiter s))\<rparr> else s"
  from a have h: "handleToolsCall env clk s (Params req) = invokeTool env clk ?s cp"
    by (intro handleToolsCall_admitted) simp_all
  from a have "fst (Call env (Name cp) (Arguments cp) ?s) = Inl msg"
    using Call_fields(3) [of env "Name cp" "Arguments cp" ?s s] by simp
  then have "fst (invokeTool env clk ?s cp) =
    (Some \<lparr>Content = [\<lparr>Type = ''text'', Text = ''Error: '' @ msg\<rparr>], IsError = True\<rparr>, None)"
    by (rule invokeTool_failure)
  with a h show "fst (handleMessage env clk s message) =
          Some \<lparr>JSONRPC = ''2.0'', ID = req_ID req,
                 Result = Some (ToolsCallRes
                   \<lparr>Content = [\<lparr>Type = ''text'', Text = ''Error: '' @ msg\<rparr>], IsError = True\<rparr>),
                 Error = None\<rparr>"
    by (simp add: handleMessage_routed [of env message req] routeMethod_tools_call asResult_def)
next
  assume a: "unmarshalRequest env message = Inr req \<and> req_JSONRPC req = ''2.0''
      \<and> Method req = ''resources/read''
      \<and> unmarshalResourcesReadParams env (rawBytes (Params req)) = Inr uri
      \<and> Read env uri = Inl msg"
  then have "handleResourcesRead env (Params req) =
      (None, Some \<lparr>Code = InternalError, ErrMessage = ''Resource read failed'', Data = Some msg\<rparr>)"
    by (simp add: handleResourcesRead_def)
  with a show "fst (handleMessage env clk s message) =
          Some \<lparr>JSONRPC = ''2.0'', ID = req_ID req, Result = None,
                 Error = Some \<lparr>Code = - 32603, ErrMessage = ''Resource read failed'',
                               Data = Some msg\<rparr>\<rparr>"
    by (simp add: handleMessage_routed [of env message req] routeMethod_resources_read
        asResult_def InternalError_def)
qed

theorem downstream_failure_reporting_witness:
  "fst (handleMessage (exampleEnv (exampleRequest ''tools/call'' ''get_record''))
          exampleClock exampleServer [])
     = Some \<lparr>JSONRPC = ''2.0'', ID = Some 1,
              Result = Some (ToolsCallRes
                \<lparr>Content = [\<lparr>Type = ''text'', Text = ''Error: record not found''\<rparr>],
                   IsError = True\<rparr>),
              Error = None\<rparr>
   \<and> Read (exampleEnv (exampleRequest ''resources/read'' ''aerospike://nothing'')) ''aerospike://nothing''
       = Inl ''unknown resource: aerospike://nothing''
   \<and> fst (handleMessage (exampleEnv (exampleRequest ''resources/read'' ''aerospike://nothing''))
          exampleClock exampleServer [])
     = Some \<lparr>JSONRPC = ''2.0'', ID = Some 1, Result = None,
              Error = Some \<lparr>Code = - 32603, ErrMessage = ''Resource read failed'',
                            Data = Some ''unknown resource: aerospike://nothing''\<rparr>\<rparr>"
proof -
  let ?e1 = "exampleEnv (exampleRequest ''tools/call'' ''get_record'')"
  let ?e2 = "exampleEnv (exampleRequest ''resources/read'' ''aerospike://nothing'')"
  have nw: "\<not> isWriteOperation ''get_record''"
    by (simp add: isWriteOperation_def)
  have h1: "unmarshalRequest ?e1 [] = Inr (exampleRequest ''tools/call'' ''get_record'')
      \<and> req_JSONRPC (exampleRequest ''tools/call'' ''get_record'') = ''2.0''
      \<and> Method (exampleRequest ''tools/call'' ''get_record'') = ''tools/call''
      \<and> unmarshalToolsCallParams ?e1 (rawBytes (Params (exampleRequest ''tools/call'' ''get_record'')))
          = Inr \<lparr>Name = ''get_record'', Arguments = None\<rparr>
      \<and> \<not> (isWriteOperation (Name \<lparr>Name = ''get_record'', Arguments = None\<rparr>)
            \<and> \<not> fst (Allow (allowTime exampleClock) (rateLimiter exampleServer)))
      \<and> fst (Call ?e1 (Name \<lparr>Name = ''get_record'', Arguments = None\<rparr>)
               (Arguments \<lparr>Name = ''get_record'', Arguments = None\<rparr>) exampleServer)
          = Inl ''record not found''"
    using nw by (simp add: exampleEnv_def exampleRequest_def rawBytes_def Call_def)
  have r: "Read ?e2 ''aerospike://nothing'' = Inl ''unknown resource: aerospike://nothing''"
    by (simp add: Read_def exampleEnv_def)
  have h2: "unmarshalRequest ?e2 [] = Inr (exampleRequest ''resources/read'' ''aerospike://nothing'')
      \<and> req_JSONRPC (exampleRequest ''resources/read'' ''aerospike://nothing'') = ''2.0''
      \<and> Method (exampleRequest ''resources/read'' ''aerospike://nothing'') = ''resources/read''
      \<and> unmarshalResourcesReadParams ?e2
            (rawBytes (Params (exampleRequest ''resources/read'' ''aerospike://nothing'')))
          = Inr ''aerospike://nothing''
      \<and> Read ?e2 ''aerospike://nothing'' = Inl ''unknown resource: aerospike://nothing''"
    using r by (simp add: exampleEnv_def exampleRequest_def rawBytes_def)
  have id: "req_ID (exampleRequest m p) = Some 1" for m p
    by (simp add: exampleRequest_def)
  note c1 = downstream_failure_reporting [THEN conjunct1, THEN mp, OF h1, unfolded id]
  note c2 = downstream_failure_reporting [THEN conjunct2, THEN mp, OF h2, unfolded id]
  from c1 have c1': "fst (handleMessage ?e1 exampleClock exampleServer [])
     = Some \<lparr>JSONRPC = ''2.0'', ID = Some 1,
              Result = Some (ToolsCallRes
                \<lparr>Content = [\<lparr>Type = ''text'', Text = ''Error: record not found''\<rparr>],
                   IsError = True\<rparr>),
              Error = None\<rparr>"
    by simp
  show ?thesis
    by (intro conjI c1' r c2)
qed




text \<open>
  Claim C6. A \<^verbatim>\<open>tools/call\<close> of a rate-limited (write) method that the limiter refuses is
  answered with a response without protocol error whose result is flagged as an error and
  carries the throttling message; and with the audit logger present and enabled, exactly one
  record is written to the audit sink for the call, the rendering of an event of level
  \<^verbatim>\<open>WARNING\<close>, which is also appended to the in-memory ring.
\<close>

theorem rate_limited_call_audited:
  "unmarshalRequest env message = Inr req \<and> req_JSONRPC req = ''2.0''
     \<and> Method req = ''tools/call''
     \<and> unmarshalToolsCallParams env (rawBytes (Params req)) = Inr cp
     \<and> isWriteOperation (Name cp)
     \<and> \<not> fst (Allow (allowTime clk) (rateLimiter s))
     \<and> auditLogger s = Some l \<and> logEnabled l
     \<and> event = Event0\<lparr>Timestamp := logTime clk, Level := LevelWarning, Category := CategoryWrite,
                  Operation := Name cp, Success := False, ErrorText := ''rate limit exceeded''\<rparr>
     \<and> marshalEvent env event = Inr data
   \<longrightarrow> fst (handleMessage env clk s message) =
         Some \<lparr>JSONRPC = ''2.0'', ID = req_ID req,
                Result = Some (ToolsCallRes
                  \<lparr>Content = [\<lparr>Type = ''text'',
                                Text = ''Error: rate limit exceeded, please try again later''\<rparr>],
                     IsError = True\<rparr>),
                Error = None\<rparr>
       \<and> Level event = ''WARNING''
       \<and> (\<exists>l'. auditLogger (snd (handleMessage env clk s message)) = Some l'
              \<and> writer l' = writer l @ [data @ [CHR 0x0A]]
              \<and> buffer l' = (if int (length (buffer l)) + 1 \<ge> bufSize l
                              then tl (buffer l @ [event]) else buffer l @ [event]))"
proof (intro impI)
  assume a: "unmarshalRequest env message = Inr req \<and> req_JSONRPC req = ''2.0''
     \<and> Method req = ''tools/call''
     \<and> unmarshalToolsCallParams env (rawBytes (Params req)) = Inr cp
     \<and> isWriteOperation (Name cp)
     \<and> \<not> fst (Allow (allowTime clk) (rateLimiter s))
     \<and> auditLogger s = Some l \<and> logEnabled l
     \<and> event = Event0\<lparr>Timestamp := logTime clk, Level := LevelWarning, Category := CategoryWrite,
                  Operation := Name cp, Success := False, ErrorText := ''rate limit exceeded''\<rparr>
     \<and> marshalEvent env event = Inr data"
  let ?ev0 = "Event0\<lparr>Level := LevelWarning, Category := CategoryWrite, Operation := Name cp,
          Success := False, ErrorText := ''rate limit exceeded''\<rparr>"
  from a have m: "handleMessage env clk s message =
    (Some \<lparr>JSONRPC = ''2.0'', ID = req_ID req,
            Result = (if snd (fst (handleToolsCall env clk s (Params req))) \<noteq> None then None
                      else map_option ToolsCallRes (fst (fst (handleToolsCall env clk s (Params req))))),
            Error = snd (fst (handleToolsCall env clk s (Params req)))\<rparr>,
     snd (handleToolsCall env clk s (Params req)))"
    by (intro tools_call_response) simp_all
  from a have h: "handleToolsCall env clk s (Params req) =
    ((Some \<lparr>Content = [\<lparr>Type = ''text'',
                          Text = ''Error: rate limit exceeded, please try again later''\<rparr>],
             IsError = True\<rparr>, None),
     auditLog env (logTime clk) (s\<lparr>rateLimiter := snd (Allow (allowTime clk) (rateLimiter s))\<rparr>) ?ev0)"
    by (intro handleToolsCall_limited) simp_all
  have st: "stamp (logTime clk, ?ev0) = event"
    using a by (simp add: stamp_def IsZero_def Event0_def)
  from a have lg: "auditLogger (auditLog env (logTime clk)
        (s\<lparr>rateLimiter := snd (Allow (allowTime clk) (rateLimiter s))\<rparr>) ?ev0)
      = Some (Log (marshalEvent env) (logTime clk) l ?ev0)"
    by (simp add: auditLog_def)
  from a have en: "logEnabled l"
    by simp
  have "marshalEvent env event = Inr data"
    by (insert a, elim conjE, assumption)
  then have mar: "marshalEvent env (stamp (logTime clk, ?ev0)) = Inr data"
    unfolding st .
  have wr: "writer (Log (marshalEvent env) (logTime clk) l ?ev0) = writer l @ [data @ [CHR 0x0A]]"
    using en mar
    by (cases "IsZero (Timestamp ?ev0)"; simp add: Log_def stamp_def Let_def)
  have bf: "buffer (Log (marshalEvent env) (logTime clk) l ?ev0) =
      (if int (length (buffer l)) + 1 \<ge> bufSize l
       then tl (buffer l @ [event]) else buffer l @ [event])"
    using Log_buffer(1) [of l "marshalEvent env" "logTime clk" ?ev0 data, OF en mar]
    unfolding st .
  have lv: "Level event = ''WARNING''"
    using a by (simp add: LevelWarning_def)
  show "fst (handleMessage env clk s message) =
         Some \<lparr>JSONRPC = ''2.0'', ID = req_ID req,
                Result = Some (ToolsCallRes
                  \<lparr>Content = [\<lparr>Type = ''text'',
                                Text = ''Error: rate limit exceeded, please try again later''\<rparr>],
                     IsError = True\<rparr>),
                Error = None\<rparr>
       \<and> Level event = ''WARNING''
       \<and> (\<exists>l'. auditLogger (snd (handleMessage env clk s message)) = Some l'
              \<and> writer l' = writer l @ [data @ [CHR 0x0A]]
              \<and> buffer l' = (if int (length (buffer l)) + 1 \<ge> bufSize l
                              then tl (buffer l @ [event]) else buffer l @ [event]))"
    unfolding m h using lg wr bf lv by simp
qed

theorem rate_limited_call_audited_witness:
  "isWriteOperation ''put_record''
   \<and> \<not> fst (Allow (allowTime exampleClock) (rateLimiter exampleServer))
   \<and> auditLogger exampleServer = Some ring3 \<and> logEnabled ring3
   \<and> fst (handleMessage (exampleEnv (exampleRequest ''tools/call'' ''put_record''))
            exampleClock exampleServer [])
       = Some \<lparr>JSONRPC = ''2.0'', ID = Some 1,
                Result = Some (ToolsCallRes
                  \<lparr>Content = [\<lparr>Type = ''text'',
                                Text = ''Error: rate limit exceeded, please try again later''\<rparr>],
                     IsError = True\<rparr>),
                Error = None\<rparr>
   \<and> (\<exists>l'. auditLogger (snd (handleMessage (exampleEnv (exampleRequest ''tools/call'' ''put_record''))
                                 exampleClock exampleServer [])) = Some l'
          \<and> writer l' = [''WARNING put_record'' @ [CHR 0x0A]]
          \<and> map Level (buffer l') = [''WARNING''])"
proof -
  let ?e = "exampleEnv (exampleRequest ''tools/call'' ''put_record'')"
  let ?event = "Event0\<lparr>Timestamp := logTime exampleClock, Level := LevelWarning,
      Category := CategoryWrite,
      Operation := Name \<lparr>Name = ''put_record'', Arguments = None\<rparr>, Success := False,
      ErrorText := ''rate limit exceeded''\<rparr>"
  have w: "isWriteOperation ''put_record''"
    by (simp add: isWriteOperation_def)
  have d: "\<not> fst (Allow (allowTime exampleClock) (rateLimiter exampleServer))"
    by (simp add: exhausted)
  have lg: "auditLogger exampleServer = Some ring3" "logEnabled ring3"
    by (simp_all add: exampleServer_def ring3_def)
  have mar: "marshalEvent ?e ?event = Inr ''WARNING put_record''"
    by (simp add: exampleEnv_def LevelWarning_def)
  have h: "unmarshalRequest ?e [] = Inr (exampleRequest ''tools/call'' ''put_record'')
     \<and> req_JSONRPC (exampleRequest ''tools/call'' ''put_record'') = ''2.0''
     \<and> Method (exampleRequest ''tools/call'' ''put_record'') = ''tools/call''
     \<and> unmarshalToolsCallParams ?e (rawBytes (Params (exampleRequest ''tools/call'' ''put_record'')))
         = Inr \<lparr>Name = ''put_record'', Arguments = None\<rparr>
     \<and> isWriteOperation (Name \<lparr>Name = ''put_record'', Arguments = None\<rparr>)
     \<and> \<not> fst (Allow (allowTime exampleClock) (rateLimiter exampleServer))
     \<and> auditLogger exampleServer = Some ring3 \<and> logEnabled ring3
     \<and> ?event = ?event
     \<and> marshalEvent ?e ?event = Inr ''WARNING put_record''"
    using w d lg mar by (simp add: exampleEnv_def exampleRequest_def rawBytes_def)
  have id: "req_ID (exampleRequest m p) = Some 1" for m p
    by (simp add: exampleRequest_def)
  have r3: "writer ring3 = []" "buffer ring3 = []" "bufSize ring3 = 3"
    by (simp_all add: ring3_def)
  note c = rate_limited_call_audited [THEN mp, OF h, unfolded id r3]
  from c [THEN conjunct2, THEN conjunct2]
  have ex: "\<exists>l'. auditLogger (snd (handleMessage ?e exampleClock exampleServer [])) = Some l'
          \<and> writer l' = [''WARNING put_record'' @ [CHR 0x0A]]
          \<and> map Level (buffer l') = [''WARNING'']"
    by (auto simp: LevelWarning_def)
  show ?thesis
    by (intro conjI w d lg c [THEN conjunct1] ex)
qed

end
